theory Spec2Isabelle
  imports Complex_Main "HOL-Library.Sublist"
begin

section \<open>Data model of the arbitrage bot (src/src/bot.py)\<close>

text \<open>
  Conventions of the embedding.
  \<^item> Python \<open>int\<close> is \<open>int\<close>; a \<open>uint256\<close> decoded from a contract call is \<open>nat\<close>.
  \<^item> \<open>Decimal\<close> is \<open>rat\<close>. The arithmetic of the analyzer and of the guard is taken as
    exact: the rounding of the decimal context is not modelled there. The one
    accumulation, \<open>total_profit += expected_profit\<close>, is modelled with the context's
    rounding (\<open>decimal_add\<close>).
  \<^item> \<open>time.time()\<close> is a \<open>rat\<close> (seconds).
  \<^item> A dictionary built by insertion over distinct keys is an association list read
    with \<open>map_of\<close>; the price cache is a map from cache keys to such lists.
  \<^item> Every \<open>try ... except Exception\<close> of the source is a case distinction on a value
    of type \<open>error + 'a\<close> (or on \<open>None\<close>); the calls that leave the process (contract
    calls, node reads, signing, the relay) are fields of the records \<open>env\<close> and
    \<open>relay_env\<close>, which are the outside world at the time of a call. A function that
    writes \<open>self\<close> takes the bot and returns the bot after the call.
  \<^item> \<open>await\<close> is an ordinary call: the coroutines are run one after the other, in the
    order of the source.
\<close>

type_synonym address = string
type_synonym prices = "(string \<times> rat) list"

datatype error = KeyError | IndexError | ZeroDivisionError | AttributeError | TypeError
  | TransportError | Overflow

text \<open>The dataclass \<open>ArbitrageOpportunity\<close> (lines 18-27).\<close>

record opportunity =
  token0 :: address
  token1 :: address
  source_dex :: string
  target_dex :: string
  amount_in :: int
  expected_profit :: rat
  execution_path :: "string list"
  gas_estimate :: int

text \<open>
  The outside world. \<open>dex_interfaces\<close> lists the keys of the dictionary
  \<open>self.dex_interfaces\<close> in insertion order; \<open>getAmountsOut\<close> is the router call
  \<open>dex_interface.functions.getAmountsOut(amount_in, path).call()\<close> of the venue of that
  name, which either raises or returns the decoded \<open>uint256[]\<close>; \<open>gas_price\<close> is the
  node read \<open>self.w3.eth.gas_price\<close> (wei).
\<close>

record env =
  dex_interfaces :: "string list"
  getAmountsOut :: "string \<Rightarrow> int \<Rightarrow> address list \<Rightarrow> error + nat list"
  gas_price :: "error + nat"

text \<open>Constants set in \<open>__init__\<close> (lines 53, 62, 65).\<close>

definition CACHE_DURATION :: rat where
  "CACHE_DURATION = 5"

definition min_profit_threshold :: rat where
  "min_profit_threshold = 1 / 100"

definition flash_loan_fee :: rat where
  "flash_loan_fee = 9 / 10000"

text \<open>\<open>Web3.toWei(0.1, 'ether')\<close> and \<open>Web3.toWei(100, 'ether')\<close> (lines 439-440, 464).\<close>

definition wei_tenth_ether :: int where
  "wei_tenth_ether = 10 ^ 17"

definition wei_hundred_ether :: int where
  "wei_hundred_ether = 10 ^ 20"

section \<open>Opportunity Analyzer and Trade-Size Optimizer\<close>

text \<open>\<open>_calculate_profit\<close> (lines 116-123).\<close>

definition calculate_profit :: "int \<Rightarrow> rat \<Rightarrow> rat \<Rightarrow> rat" where
  "calculate_profit amount source_price target_price =
     (target_price - source_price) * of_int amount"

text \<open>
  \<open>_estimate_gas_cost\<close> (lines 125-141): \<open>int(300000 * 1.2)\<close>. The double nearest to
  1.2 times 300000 rounds to 360000.0, so the function returns 360000 whatever its
  arguments; nothing in the \<open>try\<close> block can raise.
\<close>

definition estimate_gas_cost :: "address \<Rightarrow> address \<Rightarrow> int \<Rightarrow> string \<Rightarrow> string \<Rightarrow> int" where
  "estimate_gas_cost tok0 tok1 amount src tgt = 360000"

text \<open>
  \<open>_get_dex_output\<close> (lines 519-543): a missing interface (KeyError), a failing call
  and an empty result (IndexError on \<open>amounts[-1]\<close>) all end in the \<open>except\<close> branch,
  which returns 0.
\<close>

definition get_dex_output :: "env \<Rightarrow> string \<Rightarrow> address \<Rightarrow> address \<Rightarrow> int \<Rightarrow> int" where
  "get_dex_output e dex_name token_in token_out amt =
     (if dex_name \<notin> set (dex_interfaces e) then 0
      else case getAmountsOut e dex_name amt [token_in, token_out] of
             Inl err \<Rightarrow> 0
           | Inr amounts \<Rightarrow> (if amounts = [] then 0 else int (last amounts)))"

text \<open>\<open>_simulate_trade_profit\<close> (lines 480-517).\<close>

definition simulate_trade_profit ::
  "env \<Rightarrow> address \<Rightarrow> address \<Rightarrow> int \<Rightarrow> string \<Rightarrow> string \<Rightarrow> rat" where
  "simulate_trade_profit e tok0 tok1 amount src tgt =
     (let source_output = get_dex_output e src tok0 tok1 amount;
          target_output = get_dex_output e tgt tok1 tok0 source_output;
          profit = of_int (target_output - amount);
          fee = of_int amount * flash_loan_fee
      in profit - fee)"

text \<open>
  \<open>_find_optimal_amount\<close> (lines 427-478). The loop variables are the fields of
  \<open>search\<close>; \<open>bisect_step\<close> is one pass of the loop body, given the simulated profit as a
  function of the amount; \<open>bisect_loop n\<close> runs \<open>n\<close> passes.
\<close>

record search =
  min_amount :: int
  max_amount :: int
  best_amount :: "int option"
  best_profit :: rat

definition mid_amount :: "search \<Rightarrow> int" where
  "mid_amount s = (min_amount s + max_amount s) div 2"

definition bisect_step :: "(int \<Rightarrow> rat) \<Rightarrow> search \<Rightarrow> search" where
  "bisect_step sim s =
     (let mid = mid_amount s;
          profit = sim mid;
          s1 = (if profit > best_profit s
                then s\<lparr>best_amount := Some mid, best_profit := profit\<rparr> else s);
          lower_profit = sim (mid - wei_tenth_ether)
      in if lower_profit < profit then s1\<lparr>min_amount := mid\<rparr>
         else s1\<lparr>max_amount := mid\<rparr>)"

fun bisect_loop :: "nat \<Rightarrow> (int \<Rightarrow> rat) \<Rightarrow> search \<Rightarrow> search" where
  "bisect_loop 0 sim s = s"
| "bisect_loop (Suc n) sim s = bisect_loop n sim (bisect_step sim s)"

definition search_init :: search where
  "search_init = \<lparr>min_amount = wei_tenth_ether, max_amount = wei_hundred_ether,
                  best_amount = None, best_profit = 0\<rparr>"

definition find_optimal_amount ::
  "env \<Rightarrow> address \<Rightarrow> address \<Rightarrow> string \<Rightarrow> string \<Rightarrow> rat \<Rightarrow> rat \<Rightarrow> int option" where
  "find_optimal_amount e tok0 tok1 src tgt source_price target_price =
     best_amount (bisect_loop 20 (\<lambda>a. simulate_trade_profit e tok0 tok1 a src tgt) search_init)"

text \<open>
  The amounts the loop simulates at its midpoints, in order: the midpoint of the
  current range, then those of the passes that follow.
\<close>

fun midpoints :: "nat \<Rightarrow> (int \<Rightarrow> rat) \<Rightarrow> search \<Rightarrow> int list" where
  "midpoints 0 sim s = []"
| "midpoints (Suc n) sim s = mid_amount s # midpoints n sim (bisect_step sim s)"

definition probed_amounts :: "env \<Rightarrow> address \<Rightarrow> address \<Rightarrow> string \<Rightarrow> string \<Rightarrow> int list" where
  "probed_amounts e tok0 tok1 src tgt =
     midpoints 20 (\<lambda>a. simulate_trade_profit e tok0 tok1 a src tgt) search_init"

text \<open>
  The arithmetic of lines 319-322 of \<open>_analyze_opportunity\<close>, with the gas price as
  the node returns it (an integer number of wei).
\<close>

definition net_profit_of :: "int \<Rightarrow> rat \<Rightarrow> rat \<Rightarrow> int \<Rightarrow> nat \<Rightarrow> rat" where
  "net_profit_of optimal_amount source_price target_price gas_est gp =
     (let profit = calculate_profit optimal_amount source_price target_price;
          flash_loan_cost = of_int optimal_amount * flash_loan_fee;
          gas_cost = of_int (gas_est * int gp)
      in profit - flash_loan_cost - gas_cost)"

text \<open>
  \<open>_analyze_opportunity\<close> (lines 277-339). A venue missing from \<open>prices\<close> (KeyError)
  and a failing gas-price read end in the \<open>except\<close> branch, after which the function
  returns \<open>None\<close>.
\<close>

definition analyze_opportunity ::
  "env \<Rightarrow> address \<Rightarrow> address \<Rightarrow> string \<Rightarrow> string \<Rightarrow> prices \<Rightarrow> opportunity option" where
  "analyze_opportunity e tok0 tok1 src tgt ps =
     (case map_of ps src of
        None \<Rightarrow> None
      | Some source_price \<Rightarrow>
     (case map_of ps tgt of
        None \<Rightarrow> None
      | Some target_price \<Rightarrow>
     (case find_optimal_amount e tok0 tok1 src tgt source_price target_price of
        None \<Rightarrow> None
      | Some optimal_amount \<Rightarrow>
          if optimal_amount = 0 then None
          else
           (let gas_est = estimate_gas_cost tok0 tok1 optimal_amount src tgt
            in case gas_price e of
                 Inl err \<Rightarrow> None
               | Inr gp \<Rightarrow>
                  (let net_profit = net_profit_of optimal_amount source_price target_price gas_est gp
                   in if net_profit > min_profit_threshold
                      then Some \<lparr>token0 = tok0, token1 = tok1, source_dex = src,
                                  target_dex = tgt, amount_in = optimal_amount,
                                  expected_profit = net_profit,
                                  execution_path = [src, tgt], gas_estimate = gas_est\<rparr>
                      else None)))))"

section \<open>Price Aggregator\<close>

text \<open>
  \<open>_get_curve_price\<close> (lines 243-262). The attribute \<open>self.curve_registry\<close> read at
  line 252 is assigned nowhere in the class, so the read raises AttributeError and the
  \<open>except\<close> branch returns \<open>None\<close>.
\<close>

definition get_curve_price :: "env \<Rightarrow> address \<Rightarrow> address \<Rightarrow> rat option" where
  "get_curve_price e tok0 tok1 = None"

text \<open>
  \<open>_get_dex_price\<close> (lines 217-241). The method \<open>_get_balancer_price\<close> does not exist
  (AttributeError); a failing router call, a result with fewer than two amounts
  (IndexError) and a first amount of zero (division by zero) raise as well. Every
  exception ends in \<open>return None\<close>. The probe amount is \<open>Web3.toWei(1, 'ether')\<close>.
\<close>

definition get_dex_price :: "env \<Rightarrow> string \<Rightarrow> address \<Rightarrow> address \<Rightarrow> rat option" where
  "get_dex_price e dex_name tok0 tok1 =
     (if dex_name = ''curve'' then get_curve_price e tok0 tok1
      else if dex_name = ''balancer'' then None
      else case getAmountsOut e dex_name (10 ^ 18) [tok0, tok1] of
             Inl err \<Rightarrow> None
           | Inr amounts \<Rightarrow>
               if length amounts < 2 then None
               else if amounts ! 0 = 0 then None
               else Some (of_nat (amounts ! 1) / of_nat (amounts ! 0)))"

text \<open>Python's truth value of an \<open>Optional[Decimal]\<close>, as tested by \<open>if price:\<close>.\<close>

definition truthy :: "rat option \<Rightarrow> bool" where
  "truthy price = (case price of None \<Rightarrow> False | Some p \<Rightarrow> p \<noteq> 0)"

text \<open>
  The loop of lines 208-210 over \<open>zip(self.dex_interfaces.keys(), results)\<close>: a
  result is stored only if it is truthy, that is neither \<open>None\<close> nor a zero Decimal.
\<close>

fun collect_prices :: "(string \<times> rat option) list \<Rightarrow> prices" where
  "collect_prices [] = []"
| "collect_prices ((dex_name, price) # rest) =
     (case price of
        None \<Rightarrow> collect_prices rest
      | Some p \<Rightarrow> if p \<noteq> 0 then (dex_name, p) # collect_prices rest
                  else collect_prices rest)"

definition fetch_prices :: "env \<Rightarrow> address \<Rightarrow> address \<Rightarrow> prices" where
  "fetch_prices e tok0 tok1 =
     (let results = map (\<lambda>dex_name. get_dex_price e dex_name tok0 tok1) (dex_interfaces e)
      in collect_prices (zip (dex_interfaces e) results))"

text \<open>The mutable fields of the bot: the statistics, the price cache and its one timestamp.\<close>

record statistics =
  opportunities_found :: nat
  trades_executed :: nat
  total_profit :: rat
  failed_trades :: nat

record bot =
  price_cache :: "string \<rightharpoonup> prices"
  last_cache_update :: rat
  stats :: statistics

definition bot_init :: bot where
  "bot_init = \<lparr>price_cache = Map.empty, last_cache_update = 0,
               stats = \<lparr>opportunities_found = 0, trades_executed = 0, total_profit = 0,
                         failed_trades = 0\<rparr>\<rparr>"

definition cache_key :: "address \<Rightarrow> address \<Rightarrow> string" where
  "cache_key tok0 tok1 = tok0 @ ''-'' @ tok1"

text \<open>
  \<open>_get_prices\<close> (lines 185-215). The result is the returned dictionary, the bot after
  the call, and the venues for which a quote task was created during the call.
\<close>

definition refresh_prices :: "env \<Rightarrow> bot \<Rightarrow> rat \<Rightarrow> address \<Rightarrow> address \<Rightarrow> prices \<times> bot \<times> string list" where
  "refresh_prices e b current_time tok0 tok1 =
     (let ps = fetch_prices e tok0 tok1
      in (ps,
          b\<lparr>price_cache := (price_cache b)(cache_key tok0 tok1 \<mapsto> ps),
            last_cache_update := current_time\<rparr>,
          dex_interfaces e))"

definition get_prices :: "env \<Rightarrow> bot \<Rightarrow> rat \<Rightarrow> address \<Rightarrow> address \<Rightarrow> prices \<times> bot \<times> string list" where
  "get_prices e b current_time tok0 tok1 =
     (case price_cache b (cache_key tok0 tok1) of
        None \<Rightarrow> refresh_prices e b current_time tok0 tok1
      | Some cached \<Rightarrow>
          if current_time - last_cache_update b < CACHE_DURATION then (cached, b, [])
          else refresh_prices e b current_time tok0 tok1)"

text \<open>Every price of a dictionary, and of every cached dictionary, is strictly positive.\<close>

definition prices_positive :: "prices \<Rightarrow> bool" where
  "prices_positive ps = list_all (\<lambda>(dex_name, p). 0 < p) ps"

definition cache_positive :: "bot \<Rightarrow> bool" where
  "cache_positive b = (\<forall>k ps. price_cache b k = Some ps \<longrightarrow> prices_positive ps)"

text \<open>The world \<open>e\<close> with the router call of venue \<open>d\<close> raising instead.\<close>

definition venue_fails :: "env \<Rightarrow> string \<Rightarrow> env" where
  "venue_fails e d =
     e\<lparr>getAmountsOut := (\<lambda>dex_name a path.
          if dex_name = d then Inl TransportError else getAmountsOut e dex_name a path)\<rparr>"

section \<open>Validation Guard\<close>

definition MAX_PRICE_DEVIATION :: rat where
  "MAX_PRICE_DEVIATION = 1 / 100"

text \<open>
  One line of lines 584-585: the price looked up in \<open>self.price_cache\<close> under the
  opportunity's pair and venue (KeyError when either is missing), and the division by
  the current price.
\<close>

definition deviation :: "bot \<Rightarrow> opportunity \<Rightarrow> rat \<Rightarrow> string \<Rightarrow> error + rat" where
  "deviation b opp price dex_name =
     (case price_cache b (cache_key (token0 opp) (token1 opp)) of
        None \<Rightarrow> Inl KeyError
      | Some cached \<Rightarrow>
         (case map_of cached dex_name of
            None \<Rightarrow> Inl KeyError
          | Some recorded \<Rightarrow>
              if price = 0 then Inl ZeroDivisionError
              else Inr (\<bar>price - recorded\<bar> / price)))"

text \<open>\<open>_verify_prices\<close> (lines 573-591): the \<open>try\<close> block, then the function with its \<open>except\<close>.\<close>

definition verify_prices_body :: "bot \<Rightarrow> prices \<Rightarrow> opportunity \<Rightarrow> error + bool" where
  "verify_prices_body b current_prices opp =
     (case map_of current_prices (source_dex opp) of
        None \<Rightarrow> Inl KeyError
      | Some source_price \<Rightarrow>
     (case map_of current_prices (target_dex opp) of
        None \<Rightarrow> Inl KeyError
      | Some target_price \<Rightarrow>
     (case deviation b opp source_price (source_dex opp) of
        Inl err \<Rightarrow> Inl err
      | Inr source_deviation \<Rightarrow>
     (case deviation b opp target_price (target_dex opp) of
        Inl err \<Rightarrow> Inl err
      | Inr target_deviation \<Rightarrow>
          Inr (source_deviation \<le> MAX_PRICE_DEVIATION \<and>
               target_deviation \<le> MAX_PRICE_DEVIATION)))))"

definition verify_prices :: "bot \<Rightarrow> prices \<Rightarrow> opportunity \<Rightarrow> bool" where
  "verify_prices b current_prices opp =
     (case verify_prices_body b current_prices opp of Inl err \<Rightarrow> False | Inr ok \<Rightarrow> ok)"

text \<open>
  \<open>_validate_opportunity\<close> (lines 545-571). The source declares it with \<open>def\<close> although
  its body awaits \<open>_get_prices\<close>; the model follows the body, the awaited call being an
  ordinary call. \<open>_get_prices\<close> writes the cache before \<open>_verify_prices\<close> reads it, so
  the bot passed on is the one after the call.
\<close>

definition validate_opportunity_body ::
  "env \<Rightarrow> bot \<Rightarrow> rat \<Rightarrow> opportunity \<Rightarrow> (error + bool) \<times> bot \<times> string list" where
  "validate_opportunity_body e b current_time opp =
     (if expected_profit opp \<le> min_profit_threshold then (Inr False, b, [])
      else case gas_price e of
             Inl err \<Rightarrow> (Inl err, b, [])
           | Inr current_gas_price \<Rightarrow>
              (let estimated_gas_cost = of_int (gas_estimate opp * int current_gas_price)
               in if estimated_gas_cost \<ge> expected_profit opp then (Inr False, b, [])
                  else case get_prices e b current_time (token0 opp) (token1 opp) of
                         (current_prices, b', calls) \<Rightarrow>
                           (if \<not> verify_prices b' current_prices opp then (Inr False, b', calls)
                            else (Inr True, b', calls))))"

definition validate_opportunity ::
  "env \<Rightarrow> bot \<Rightarrow> rat \<Rightarrow> opportunity \<Rightarrow> bool \<times> bot \<times> string list" where
  "validate_opportunity e b current_time opp =
     (case validate_opportunity_body e b current_time opp of
        (Inl err, b', calls) \<Rightarrow> (False, b', calls)
      | (Inr ok, b', calls) \<Rightarrow> (ok, b', calls))"

section \<open>Execution Submitter\<close>

text \<open>
  A decoded JSON value, as \<open>response.json()\<close> returns it; an object is the list of the
  items of the decoded dictionary.
\<close>

datatype json = JNull | JBool bool | JNum rat | JStr string | JArr "json list"
  | JObj "(string \<times> json) list"

text \<open>The body of the relay request (lines 405-417) and the transaction parameters (lines 377-395).\<close>

record relay_bundle =
  txs :: "string list"
  blockNumber :: string
  minTimestamp :: int
  maxTimestamp :: int

record rpc_request =
  jsonrpc :: string
  rpc_id :: int
  rpc_method :: string
  params :: "relay_bundle list"

record tx_params =
  tx_from :: address
  tx_to :: address
  nonce :: nat
  gas :: int
  maxFeePerGas :: nat
  maxPriorityFeePerGas :: nat
  data :: string

text \<open>
  The node, the signer and the relay at the time of a submission: the account and
  contract addresses, the reads \<open>self.w3.eth.block_number\<close> and
  \<open>get_transaction_count\<close>, the encoder \<open>encodeABI\<close> of the call \<open>executeArbitrage\<close>,
  \<open>sign_transaction\<close> (giving the hexadecimal text of the raw transaction), and the
  relay: \<open>relay_post\<close> is \<open>session.post\<close> followed by \<open>response.json()\<close>, which raises
  or returns the decoded value.
\<close>

record relay_env =
  account_address :: address
  contract_address :: address
  block_number :: "error + nat"
  transaction_count :: "error + nat"
  encodeABI :: "address \<Rightarrow> address \<Rightarrow> int \<Rightarrow> string \<Rightarrow> string \<Rightarrow> int \<Rightarrow> error + string"
  sign_transaction :: "tx_params \<Rightarrow> error + string"
  relay_post :: "rpc_request \<Rightarrow> error + json"

text \<open>Python's \<open>int()\<close> of a number (truncation towards zero) and \<open>hex()\<close> of a natural number.\<close>

definition py_int :: "rat \<Rightarrow> int" where
  "py_int x = (if 0 \<le> x then \<lfloor>x\<rfloor> else \<lceil>x\<rceil>)"

definition hex_digit :: "nat \<Rightarrow> char" where
  "hex_digit d = ''0123456789abcdef'' ! d"

fun hex_digits :: "nat \<Rightarrow> string" where
  "hex_digits n =
     (if n < 16 then [hex_digit n] else hex_digits (n div 16) @ [hex_digit (n mod 16)])"

definition py_hex :: "nat \<Rightarrow> string" where
  "py_hex n = ''0x'' @ hex_digits n"

definition bundle_request :: "string \<Rightarrow> nat \<Rightarrow> rat \<Rightarrow> rpc_request" where
  "bundle_request raw_tx current_block current_time =
     \<lparr>jsonrpc = ''2.0'', rpc_id = 1, rpc_method = ''eth_sendBundle'',
      params = [\<lparr>txs = [raw_tx], blockNumber = py_hex (current_block + 1),
                 minTimestamp = 0, maxTimestamp = py_int current_time + 120\<rparr>]\<rparr>"

text \<open>
  Line 421, \<open>'result' in result and result['result'] is not None\<close>, on each kind of
  decoded value: on a list or a string that contains \<open>'result'\<close> the subscript raises
  TypeError, on \<open>None\<close>, a Boolean or a number the membership test does.
\<close>

definition relay_accepted :: "json \<Rightarrow> error + bool" where
  "relay_accepted result =
     (case result of
        JObj items \<Rightarrow>
          (case map_of items ''result'' of None \<Rightarrow> Inr False | Some v \<Rightarrow> Inr (v \<noteq> JNull))
      | JArr xs \<Rightarrow> if JStr ''result'' \<in> set xs then Inl TypeError else Inr False
      | JStr s \<Rightarrow> if sublist ''result'' s then Inl TypeError else Inr False
      | JNull \<Rightarrow> Inl TypeError
      | JBool v \<Rightarrow> Inl TypeError
      | JNum v \<Rightarrow> Inl TypeError)"

text \<open>
  \<open>_submit_to_flashbots\<close> (lines 399-425): the success flag and the requests posted to
  the relay. A failing block-number read raises before anything is posted.
\<close>

definition submit_to_flashbots :: "relay_env \<Rightarrow> rat \<Rightarrow> string \<Rightarrow> bool \<times> rpc_request list" where
  "submit_to_flashbots x current_time raw_tx =
     (case block_number x of
        Inl err \<Rightarrow> (False, [])
      | Inr current_block \<Rightarrow>
         (let request = bundle_request raw_tx current_block current_time
          in case relay_post x request of
               Inl err \<Rightarrow> (False, [request])
             | Inr result \<Rightarrow>
                 (case relay_accepted result of
                    Inl err \<Rightarrow> (False, [request])
                  | Inr ok \<Rightarrow> (ok, [request]))))"

text \<open>\<open>_prepare_flashbots_bundle\<close> (lines 370-397); it has no \<open>try\<close> of its own.\<close>

definition prepare_flashbots_bundle :: "env \<Rightarrow> relay_env \<Rightarrow> opportunity \<Rightarrow> error + tx_params" where
  "prepare_flashbots_bundle e x opp =
     (case transaction_count x of
        Inl err \<Rightarrow> Inl err
      | Inr n \<Rightarrow>
     (case gas_price e of
        Inl err \<Rightarrow> Inl err
      | Inr gp \<Rightarrow>
     (case encodeABI x (token0 opp) (token1 opp) (amount_in opp) (source_dex opp)
             (target_dex opp) (py_int (expected_profit opp)) of
        Inl err \<Rightarrow> Inl err
      | Inr d \<Rightarrow>
          Inr \<lparr>tx_from = account_address x, tx_to = contract_address x, nonce = n,
               gas = gas_estimate opp, maxFeePerGas = gp, maxPriorityFeePerGas = gp,
               data = d\<rparr>)))"

text \<open>
  Addition of two Decimals in the default context of the module \<open>decimal\<close>: the exact
  sum is rounded to 28 significant digits, half to even, with the exponent no smaller
  than \<open>Etiny\<close>; a result whose adjusted exponent exceeds \<open>Emax\<close> raises Overflow.
  \<open>num_digits n\<close> is the number of decimal digits of \<open>n\<close>, \<open>adjusted x\<close> the exponent of the
  leading digit of a non-zero \<open>x\<close>.
\<close>

fun num_digits :: "nat \<Rightarrow> nat" where
  "num_digits n = (if n < 10 then 1 else Suc (num_digits (n div 10)))"

declare num_digits.simps [simp del]

definition adjusted :: "rat \<Rightarrow> int" where
  "adjusted x =
     (if 1 \<le> \<bar>x\<bar> then int (num_digits (nat \<lfloor>\<bar>x\<bar>\<rfloor>)) - 1
      else (let k = num_digits (nat \<lfloor>1 / \<bar>x\<bar>\<rfloor>)
            in int (num_digits (nat \<lfloor>\<bar>x\<bar> * 10 ^ k\<rfloor>)) - 1 - int k))"

definition round_half_even :: "rat \<Rightarrow> int" where
  "round_half_even q =
     (let f = \<lfloor>q\<rfloor>; r = q - of_int f
      in if r < 1 / 2 then f else if 1 / 2 < r then f + 1
         else if even f then f else f + 1)"

definition Emax :: int where
  "Emax = 999999"

definition Etiny :: int where
  "Etiny = - 1000026"

definition decimal_fix :: "rat \<Rightarrow> error + rat" where
  "decimal_fix x =
     (if x = 0 then Inr 0
      else (let e = max (adjusted x - 27) Etiny;
                r = of_int (round_half_even (x / 10 powi e)) * 10 powi e
            in if r \<noteq> 0 \<and> Emax < adjusted r then Inl Overflow else Inr r))"

definition decimal_add :: "rat \<Rightarrow> rat \<Rightarrow> error + rat" where
  "decimal_add x y = decimal_fix (x + y)"

text \<open>
  The updates of \<open>self.stats\<close> in \<open>_execute_arbitrage\<close>: line 363 or 367 on a failure;
  lines 357-358 on a success, where an Overflow raised by \<open>+=\<close> after the first update
  reaches the \<open>except\<close> branch (line 367).
\<close>

definition record_failure :: "bot \<Rightarrow> bot" where
  "record_failure b = b\<lparr>stats := (stats b)\<lparr>failed_trades := failed_trades (stats b) + 1\<rparr>\<rparr>"

definition record_success :: "bot \<Rightarrow> opportunity \<Rightarrow> bot" where
  "record_success b opp =
     (let b1 = b\<lparr>stats := (stats b)\<lparr>trades_executed := trades_executed (stats b) + 1\<rparr>\<rparr>
      in case decimal_add (total_profit (stats b1)) (expected_profit opp) of
           Inl err \<Rightarrow> record_failure b1
         | Inr new_total \<Rightarrow> b1\<lparr>stats := (stats b1)\<lparr>total_profit := new_total\<rparr>\<rparr>)"

text \<open>\<open>_execute_arbitrage\<close> (lines 341-368): the bot after the call and the requests posted.\<close>

definition execute_arbitrage ::
  "env \<Rightarrow> relay_env \<Rightarrow> bot \<Rightarrow> rat \<Rightarrow> opportunity \<Rightarrow> bot \<times> rpc_request list" where
  "execute_arbitrage e x b current_time opp =
     (case prepare_flashbots_bundle e x opp of
        Inl err \<Rightarrow> (record_failure b, [])
      | Inr tx \<Rightarrow>
         (case sign_transaction x tx of
            Inl err \<Rightarrow> (record_failure b, [])
          | Inr raw_tx \<Rightarrow>
             (case submit_to_flashbots x current_time raw_tx of
                (success, requests) \<Rightarrow>
                  if success then (record_success b opp, requests)
                  else (record_failure b, requests))))"

section \<open>Example worlds\<close>

text \<open>
  Two routers: on \<open>uniswap\<close> one unit in gives two units out, on \<open>sushiswap\<close> the
  output equals the input. Gas is at 50 gwei.
\<close>

definition demo_env :: env where
  "demo_env = \<lparr>dex_interfaces = [''uniswap'', ''sushiswap''],
               getAmountsOut = (\<lambda>d a path.
                  if d = ''uniswap'' then Inr [nat a, nat (2 * a)] else Inr [nat a, nat a]),
               gas_price = Inr 50000000000\<rparr>"

definition demo_prices :: prices where
  "demo_prices = [(''uniswap'', 2), (''sushiswap'', 1)]"

definition demo_opp :: opportunity where
  "demo_opp = \<lparr>token0 = ''A'', token1 = ''B'', source_dex = ''sushiswap'',
               target_dex = ''uniswap'', amount_in = 99999904727935791015,
               expected_profit = 199783809627361297606173 / 2000,
               execution_path = [''sushiswap'', ''uniswap''], gas_estimate = 360000\<rparr>"

text \<open>
  The scenario's world: \<open>sushiswap\<close> quotes 2000 and \<open>uniswap\<close> 2020 for one unit, gas
  is at 50 gwei; \<open>scenario_opp\<close> is the opportunity the analyzer returns there.
\<close>

definition scenario_env :: env where
  "scenario_env = \<lparr>dex_interfaces = [''uniswap'', ''sushiswap''],
                   getAmountsOut = (\<lambda>d a path.
                     if d = ''uniswap'' then Inr [nat a, nat (2020 * a)]
                     else Inr [nat a, nat (2000 * a)]),
                   gas_price = Inr 50000000000\<rparr>"

definition scenario_prices :: prices where
  "scenario_prices = [(''uniswap'', 2020), (''sushiswap'', 2000)]"

definition scenario_opp :: opportunity where
  "scenario_opp = \<lparr>token0 = ''A'', token1 = ''B'', source_dex = ''sushiswap'',
               target_dex = ''uniswap'', amount_in = 99999904727935791015,
               expected_profit = 3999780189288921356176173 / 2000,
               execution_path = [''sushiswap'', ''uniswap''], gas_estimate = 360000\<rparr>"


text \<open>
  A world whose round trip pays at one amount only, the first midpoint of the search:
  \<open>uniswap\<close> doubles exactly that input and returns every other input unchanged.
\<close>

definition spike_env :: env where
  "spike_env = \<lparr>dex_interfaces = [''uniswap'', ''sushiswap''],
                getAmountsOut = (\<lambda>d a path.
                  if d = ''uniswap'' \<and> a = 50050000000000000000 then Inr [nat a, nat (2 * a)]
                  else Inr [nat a, nat a]),
                gas_price = Inr 50000000000\<rparr>"

text \<open>
  Further worlds over the same two routers: \<open>moved_env\<close>, where \<open>uniswap\<close> now pays
  three for one; \<open>zq_env\<close>, where \<open>uniswap\<close> quotes an output of zero; \<open>zero_env\<close>,
  where the call to \<open>uniswap\<close> raises and \<open>sushiswap\<close> quotes an output of zero;
  \<open>gas_fail_env\<close>, where the gas-price read raises.
\<close>

definition moved_env :: env where
  "moved_env = \<lparr>dex_interfaces = [''uniswap'', ''sushiswap''],
               getAmountsOut = (\<lambda>d a path.
                  if d = ''uniswap'' then Inr [nat a, nat (3 * a)] else Inr [nat a, nat a]),
               gas_price = Inr 50000000000\<rparr>"

definition moved_prices :: prices where
  "moved_prices = [(''uniswap'', 3), (''sushiswap'', 1)]"

definition zq_env :: env where
  "zq_env = \<lparr>dex_interfaces = [''uniswap'', ''sushiswap''],
             getAmountsOut = (\<lambda>d a path.
                if d = ''uniswap'' then Inr [nat a, 0] else Inr [nat a, nat a]),
             gas_price = Inr 50000000000\<rparr>"

definition zero_env :: env where
  "zero_env = \<lparr>dex_interfaces = [''uniswap'', ''sushiswap''],
               getAmountsOut = (\<lambda>d a path.
                  if d = ''uniswap'' then Inl TransportError else Inr [nat a, 0]),
               gas_price = Inr 50000000000\<rparr>"


text \<open>
  The bot after aggregating the pair A-B at time 0 in \<open>demo_env\<close>, then after
  aggregating C-D at time 4, and the bot after re-fetching A-B at time 10 in
  \<open>moved_env\<close>.
\<close>

definition bot_after_AB :: bot where
  "bot_after_AB = bot_init\<lparr>price_cache := [''A-B'' \<mapsto> demo_prices], last_cache_update := 0\<rparr>"

definition bot_after_CD :: bot where
  "bot_after_CD = bot_init\<lparr>price_cache := [''A-B'' \<mapsto> demo_prices, ''C-D'' \<mapsto> demo_prices],
                           last_cache_update := 4\<rparr>"

definition bot_moved :: bot where
  "bot_moved = bot_init\<lparr>price_cache := [''A-B'' \<mapsto> moved_prices], last_cache_update := 10\<rparr>"

text \<open>
  A node at block 18000000 with a signer that returns a fixed raw transaction and a
  relay that accepts; then the same with a relay that answers with an error object,
  with a relay that cannot be reached, and with a signer that raises.
\<close>

definition demo_relay :: relay_env where
  "demo_relay = \<lparr>account_address = ''0xACC'', contract_address = ''0xC0DE'',
                 block_number = Inr 18000000, transaction_count = Inr 7,
                 encodeABI = (\<lambda>t0 t1 a s t p. Inr ''0xda7a''),
                 sign_transaction = (\<lambda>tx. Inr ''0xf86b''),
                 relay_post = (\<lambda>r. Inr (JObj [(''jsonrpc'', JStr ''2.0''), (''id'', JNum 1),
                                             (''result'', JObj [(''bundleHash'', JStr ''0xb1'')])]))\<rparr>"

definition rejecting_relay :: relay_env where
  "rejecting_relay = demo_relay\<lparr>relay_post := (\<lambda>r. Inr (JObj [(''jsonrpc'', JStr ''2.0''),
                       (''id'', JNum 1), (''error'', JObj [(''code'', JNum (- 32000))])]))\<rparr>"

definition unreachable_relay :: relay_env where
  "unreachable_relay = demo_relay\<lparr>relay_post := (\<lambda>r. Inl TransportError)\<rparr>"

definition unsigned_relay :: relay_env where
  "unsigned_relay = demo_relay\<lparr>sign_transaction := (\<lambda>tx. Inl TypeError)\<rparr>"

text \<open>
  An opportunity whose expected profit has 28 significant digits, and the bot after
  one successful execution of it from the initial bot.
\<close>

definition big_opp :: opportunity where
  "big_opp = demo_opp\<lparr>expected_profit := 6665585079656378428130865001 / 1000000\<rparr>"

definition bot_once :: bot where
  "bot_once = bot_init\<lparr>stats := \<lparr>opportunities_found = 0, trades_executed = 1,
                 total_profit = 6665585079656378428130865001 / 1000000, failed_trades = 0\<rparr>\<rparr>"

section \<open>Trade-Size Optimizer: the running maximum\<close>

lemma length_midpoints: "length (midpoints n sim s) = n"
  by (induction n arbitrary: s) auto

lemma bisect_step_range:
  assumes "min_amount s \<le> max_amount s"
  shows "min_amount s \<le> min_amount (bisect_step sim s)"
    and "max_amount (bisect_step sim s) \<le> max_amount s"
    and "min_amount (bisect_step sim s) \<le> max_amount (bisect_step sim s)"
  using assms by (auto simp: bisect_step_def mid_amount_def Let_def)

lemma midpoints_range:
  "min_amount s \<le> max_amount s \<Longrightarrow> m \<in> set (midpoints n sim s) \<Longrightarrow>
     min_amount s \<le> m \<and> m \<le> max_amount s"
proof (induction n arbitrary: s)
  case 0
  then show ?case by simp
next
  case (Suc n)
  from Suc.prems(2) consider "m = mid_amount s" | "m \<in> set (midpoints n sim (bisect_step sim s))"
    by auto
  then show ?case
  proof cases
    case 1
    with Suc.prems(1) show ?thesis by (auto simp: mid_amount_def)
  next
    case 2
    from Suc.IH[OF bisect_step_range(3)[OF Suc.prems(1)] 2]
      bisect_step_range(1,2)[OF Suc.prems(1), of sim]
    show ?thesis by linarith
  qed
qed

lemma bisect_step_best:
  "best_profit (bisect_step sim s) = max (best_profit s) (sim (mid_amount s))"
  "best_amount (bisect_step sim s) =
     (if sim (mid_amount s) > best_profit s then Some (mid_amount s) else best_amount s)"
  by (auto simp: bisect_step_def Let_def)

text \<open>The best profit never decreases and bounds the profit at every midpoint.\<close>

lemma bisect_loop_upper:
  "best_profit s \<le> best_profit (bisect_loop n sim s) \<and>
   (\<forall>m\<in>set (midpoints n sim s). sim m \<le> best_profit (bisect_loop n sim s))"
proof (induction n arbitrary: s)
  case 0
  then show ?case by simp
next
  case (Suc n)
  have "best_profit (bisect_step sim s) \<le> best_profit (bisect_loop n sim (bisect_step sim s))"
    and "\<forall>m\<in>set (midpoints n sim (bisect_step sim s)).
           sim m \<le> best_profit (bisect_loop n sim (bisect_step sim s))"
    using Suc.IH[of "bisect_step sim s"] by auto
  then show ?case by (auto simp: bisect_step_best)
qed

text \<open>Either the loop never improved on its start, or its best pair is a midpoint and its profit.\<close>

lemma bisect_loop_attained:
  "(best_amount (bisect_loop n sim s) = best_amount s \<and>
    best_profit (bisect_loop n sim s) = best_profit s)
   \<or> (\<exists>a\<in>set (midpoints n sim s). best_amount (bisect_loop n sim s) = Some a \<and>
         best_profit (bisect_loop n sim s) = sim a \<and> best_profit s < sim a)"
proof (induction n arbitrary: s)
  case 0
  then show ?case by simp
next
  case (Suc n)
  let ?s = "bisect_step sim s"
  from Suc.IH[of ?s] show ?case
  proof
    assume "best_amount (bisect_loop n sim ?s) = best_amount ?s \<and>
            best_profit (bisect_loop n sim ?s) = best_profit ?s"
    then show ?thesis by (auto simp: bisect_step_best)
  next
    assume "\<exists>a\<in>set (midpoints n sim ?s). best_amount (bisect_loop n sim ?s) = Some a \<and>
         best_profit (bisect_loop n sim ?s) = sim a \<and> best_profit ?s < sim a"
    then obtain a where "a \<in> set (midpoints n sim ?s)"
      "best_amount (bisect_loop n sim ?s) = Some a"
      "best_profit (bisect_loop n sim ?s) = sim a" "best_profit ?s < sim a" by blast
    then show ?thesis by (auto simp: bisect_step_best)
  qed
qed

text \<open>
  Claim C5. The optimizer simulates the round trip at the midpoints of exactly 20
  bisection passes, all within the bounds of 0.1 and 100 ether (in wei). When it returns
  an amount, that amount is one of the 20 midpoints, its simulated profit is strictly
  positive and is the largest of the profits at the 20 midpoints (a running maximum,
  wherever in the sequence it was seen); it returns none exactly when no midpoint has a
  strictly positive simulated profit.
\<close>

theorem find_optimal_amount_running_max:
  "length (probed_amounts e tok0 tok1 src tgt) = 20 \<and>
   (\<forall>m\<in>set (probed_amounts e tok0 tok1 src tgt). wei_tenth_ether \<le> m \<and> m \<le> wei_hundred_ether) \<and>
   (find_optimal_amount e tok0 tok1 src tgt sp tp = None \<longleftrightarrow>
      (\<forall>m\<in>set (probed_amounts e tok0 tok1 src tgt). simulate_trade_profit e tok0 tok1 m src tgt \<le> 0)) \<and>
   (\<forall>a. find_optimal_amount e tok0 tok1 src tgt sp tp = Some a \<longrightarrow>
      a \<in> set (probed_amounts e tok0 tok1 src tgt) \<and>
      0 < simulate_trade_profit e tok0 tok1 a src tgt \<and>
      (\<forall>m\<in>set (probed_amounts e tok0 tok1 src tgt).
         simulate_trade_profit e tok0 tok1 m src tgt \<le> simulate_trade_profit e tok0 tok1 a src tgt))"
proof -
  let ?sim = "\<lambda>a. simulate_trade_profit e tok0 tok1 a src tgt"
  let ?ms = "probed_amounts e tok0 tok1 src tgt"
  let ?r = "bisect_loop 20 ?sim search_init"
  have len: "length ?ms = 20"
    by (simp add: probed_amounts_def length_midpoints)
  have rng: "\<forall>m\<in>set ?ms. wei_tenth_ether \<le> m \<and> m \<le> wei_hundred_ether"
  proof
    fix m assume "m \<in> set ?ms"
    then have "m \<in> set (midpoints 20 ?sim search_init)" by (simp add: probed_amounts_def)
    moreover have "min_amount search_init \<le> max_amount search_init"
      by (simp add: search_init_def wei_tenth_ether_def wei_hundred_ether_def)
    ultimately have "min_amount search_init \<le> m \<and> m \<le> max_amount search_init"
      using midpoints_range by blast
    then show "wei_tenth_ether \<le> m \<and> m \<le> wei_hundred_ether"
      by (simp add: search_init_def)
  qed
  have up: "\<forall>m\<in>set ?ms. ?sim m \<le> best_profit ?r"
    using bisect_loop_upper[of search_init 20 ?sim] by (simp add: probed_amounts_def)
  have att: "(best_amount ?r = None \<and> best_profit ?r = 0)
     \<or> (\<exists>a\<in>set ?ms. best_amount ?r = Some a \<and> best_profit ?r = ?sim a \<and> 0 < ?sim a)"
    using bisect_loop_attained[of 20 ?sim search_init]
    by (simp add: probed_amounts_def search_init_def)
  have res: "find_optimal_amount e tok0 tok1 src tgt sp tp = best_amount ?r"
    by (simp add: find_optimal_amount_def)
  have none: "best_amount ?r = None \<longleftrightarrow> (\<forall>m\<in>set ?ms. ?sim m \<le> 0)"
    using att up by (auto simp: not_less[symmetric])
  have some: "\<forall>a. best_amount ?r = Some a \<longrightarrow>
      a \<in> set ?ms \<and> 0 < ?sim a \<and> (\<forall>m\<in>set ?ms. ?sim m \<le> ?sim a)"
    using att up by auto
  from len rng none some show ?thesis unfolding res by blast
qed

lemma sim_spike:
  "simulate_trade_profit spike_env tok0 tok1 a ''uniswap'' ''sushiswap'' =
     (if a = 50050000000000000000 then of_int a * (9991 / 10000)
      else if 0 \<le> a then - (of_int a * (9 / 10000)) else - of_int a * (10009 / 10000))"
  by (simp add: simulate_trade_profit_def get_dex_output_def spike_env_def flash_loan_fee_def
        Let_def algebra_simps)

lemmas search_eval = eval_nat_numeral bisect_step_def mid_amount_def search_init_def
  wei_tenth_ether_def wei_hundred_ether_def Let_def

lemma spike_result:
  "find_optimal_amount spike_env ''A'' ''B'' ''uniswap'' ''sushiswap'' 1 1 = Some 50050000000000000000"
  by (simp add: find_optimal_amount_def sim_spike search_eval)

lemma spike_last:
  "last (probed_amounts spike_env ''A'' ''B'' ''uniswap'' ''sushiswap'') = 50050095272064208984"
  by (simp add: probed_amounts_def sim_spike search_eval)

text \<open>
  In the spike world the optimizer returns the first midpoint, 50.05 ether, although
  the bisection ends at another amount: the result is the running maximum.
\<close>

theorem find_optimal_amount_running_max_witness:
  "find_optimal_amount spike_env ''A'' ''B'' ''uniswap'' ''sushiswap'' 1 1 = Some 50050000000000000000 \<and>
   last (probed_amounts spike_env ''A'' ''B'' ''uniswap'' ''sushiswap'') = 50050095272064208984 \<and>
   length (probed_amounts spike_env ''A'' ''B'' ''uniswap'' ''sushiswap'') = 20 \<and>
   50050000000000000000 \<in> set (probed_amounts spike_env ''A'' ''B'' ''uniswap'' ''sushiswap'') \<and>
   0 < simulate_trade_profit spike_env ''A'' ''B'' 50050000000000000000 ''uniswap'' ''sushiswap''"
  using find_optimal_amount_running_max[of spike_env "''A''" "''B''" "''uniswap''" "''sushiswap''" 1 1]
    spike_result spike_last
  by simp

section \<open>Opportunity Analyzer: net profit and threshold\<close>

lemma analyze_opportunity_SomeD:
  assumes "analyze_opportunity e tok0 tok1 src tgt ps = Some opp"
  shows "\<exists>sp tp gp. map_of ps src = Some sp \<and> map_of ps tgt = Some tp \<and> gas_price e = Inr gp \<and>
           find_optimal_amount e tok0 tok1 src tgt sp tp = Some (amount_in opp) \<and>
           gas_estimate opp = 360000 \<and>
           expected_profit opp = net_profit_of (amount_in opp) sp tp 360000 gp \<and>
           min_profit_threshold < expected_profit opp"
  using assms
  by (auto simp: analyze_opportunity_def estimate_gas_cost_def Let_def
           split: option.splits if_splits sum.splits)

lemma sim_demo:
  "simulate_trade_profit demo_env tok0 tok1 a ''sushiswap'' ''uniswap'' =
     (if 0 \<le> a then of_int a * (9991 / 10000) else - of_int a * (10009 / 10000))"
  by (simp add: simulate_trade_profit_def get_dex_output_def demo_env_def flash_loan_fee_def
        Let_def algebra_simps)

lemma demo_optimal:
  "find_optimal_amount demo_env ''A'' ''B'' ''sushiswap'' ''uniswap'' 1 2 = Some 99999904727935791015"
  by (simp add: find_optimal_amount_def sim_demo search_eval)

lemma demo_analysis:
  "analyze_opportunity demo_env ''A'' ''B'' ''sushiswap'' ''uniswap'' demo_prices = Some demo_opp"
proof -
  have gp: "gas_price demo_env = Inr 50000000000"
    by (simp add: demo_env_def)
  show ?thesis
    by (simp add: analyze_opportunity_def demo_prices_def demo_optimal gp estimate_gas_cost_def
          net_profit_of_def calculate_profit_def flash_loan_fee_def min_profit_threshold_def
          demo_opp_def)
qed

text \<open>
  Claim C2. Whenever the analyzer returns an opportunity, its expected profit is the
  computed net profit (gross profit minus flash-loan cost minus gas cost) and is
  strictly greater than the minimum profit threshold.
\<close>

theorem analyze_opportunity_threshold:
  assumes "analyze_opportunity e tok0 tok1 src tgt ps = Some opp"
  shows "min_profit_threshold < expected_profit opp \<and>
         (\<exists>sp tp gp. map_of ps src = Some sp \<and> map_of ps tgt = Some tp \<and>
            gas_price e = Inr gp \<and>
            expected_profit opp =
              calculate_profit (amount_in opp) sp tp
                - of_int (amount_in opp) * flash_loan_fee
                - of_int (gas_estimate opp * int gp))"
proof -
  from analyze_opportunity_SomeD[OF assms] obtain sp tp gp where
    h: "map_of ps src = Some sp" "map_of ps tgt = Some tp" "gas_price e = Inr gp"
       "gas_estimate opp = 360000"
       "expected_profit opp = net_profit_of (amount_in opp) sp tp 360000 gp"
       "min_profit_threshold < expected_profit opp"
    by blast
  from h(4,5) have "expected_profit opp =
      calculate_profit (amount_in opp) sp tp - of_int (amount_in opp) * flash_loan_fee
        - of_int (gas_estimate opp * int gp)"
    by (simp add: net_profit_of_def)
  with h(1,2,3,6) show ?thesis by blast
qed

theorem analyze_opportunity_threshold_witness:
  "analyze_opportunity demo_env ''A'' ''B'' ''sushiswap'' ''uniswap'' demo_prices = Some demo_opp \<and>
   min_profit_threshold < expected_profit demo_opp \<and>
   expected_profit demo_opp = 199783809627361297606173 / 2000"
  using analyze_opportunity_threshold[OF demo_analysis] demo_analysis
  by (simp add: demo_opp_def)

lemma fetch_scenario: "fetch_prices scenario_env tok0 tok1 = scenario_prices"
  by (simp add: fetch_prices_def get_dex_price_def scenario_env_def scenario_prices_def)

lemma sim_scenario:
  "simulate_trade_profit scenario_env tok0 tok1 a ''sushiswap'' ''uniswap'' =
     (if 0 \<le> a then of_int a * (40399989991 / 10000) else - of_int a * (10009 / 10000))"
  by (simp add: simulate_trade_profit_def get_dex_output_def scenario_env_def flash_loan_fee_def
        Let_def algebra_simps)

lemma scenario_optimal:
  "find_optimal_amount scenario_env ''A'' ''B'' ''sushiswap'' ''uniswap'' 2000 2020 =
     Some 99999904727935791015"
  by (simp add: find_optimal_amount_def sim_scenario search_eval)

lemma scenario_analysis:
  "analyze_opportunity scenario_env ''A'' ''B'' ''sushiswap'' ''uniswap''
     (fetch_prices scenario_env ''A'' ''B'') = Some scenario_opp"
proof -
  have gp: "gas_price scenario_env = Inr 50000000000"
    by (simp add: scenario_env_def)
  show ?thesis
    by (simp add: fetch_scenario analyze_opportunity_def scenario_prices_def scenario_optimal gp
          estimate_gas_cost_def net_profit_of_def calculate_profit_def flash_loan_fee_def
          min_profit_threshold_def scenario_opp_def)
qed

text \<open>
  Claim C1 (as the code computes it). The amount is an integer number of wei and the
  gas price is the node's, in wei, so the gas term \<open>g * gp\<close> is in wei, the unit of the
  profit. The expected profit of a returned opportunity is
  \<open>(p_t - p_s) * a - a * f - g * gp\<close>: the flash-loan cost is the amount times the fee
  rate, the source price is no factor of it. For the scenario's numbers, the amount of
  10 units being \<open>10 * 10 ^ 18\<close> wei and 50 gwei being \<open>50 * 10 ^ 9\<close> wei, this is
  \<open>10 ^ 18\<close> times \<open>(2020 - 2000) * 10 - 10 * 0.0009 - 360000 * 50e-9\<close>.
\<close>

theorem analyze_opportunity_net_profit:
  "(analyze_opportunity e tok0 tok1 src tgt ps = Some opp \<longrightarrow>
      (\<exists>sp tp gp. map_of ps src = Some sp \<and> map_of ps tgt = Some tp \<and>
         gas_price e = Inr gp \<and> gas_estimate opp = 360000 \<and>
         expected_profit opp =
           (tp - sp) * of_int (amount_in opp) - of_int (amount_in opp) * (9 / 10000)
             - 360000 * of_nat gp)) \<and>
   net_profit_of a p_s p_t g gp' =
     (p_t - p_s) * of_int a - of_int a * (9 / 10000) - of_int g * of_nat gp' \<and>
   net_profit_of (10 * 10 ^ 18) 2000 2020 360000 (50 * 10 ^ 9) =
     10 ^ 18 * ((2020 - 2000) * 10 - 10 * (9 / 10000) - 360000 * (50 / 10 ^ 9))"
proof -
  have gen: "\<And>a p_s p_t g gp'. net_profit_of a p_s p_t g gp' =
     (p_t - p_s) * of_int a - of_int a * (9 / 10000) - of_int g * of_nat gp'"
    by (simp add: net_profit_of_def calculate_profit_def flash_loan_fee_def)
  have "analyze_opportunity e tok0 tok1 src tgt ps = Some opp \<longrightarrow>
      (\<exists>sp tp gp. map_of ps src = Some sp \<and> map_of ps tgt = Some tp \<and>
         gas_price e = Inr gp \<and> gas_estimate opp = 360000 \<and>
         expected_profit opp =
           (tp - sp) * of_int (amount_in opp) - of_int (amount_in opp) * (9 / 10000)
             - 360000 * of_nat gp)"
  proof
    assume "analyze_opportunity e tok0 tok1 src tgt ps = Some opp"
    from analyze_opportunity_SomeD[OF this] obtain sp tp gp where
      h: "map_of ps src = Some sp" "map_of ps tgt = Some tp" "gas_price e = Inr gp"
         "gas_estimate opp = 360000"
         "expected_profit opp = net_profit_of (amount_in opp) sp tp 360000 gp"
      by blast
    from h(5) have "expected_profit opp =
           (tp - sp) * of_int (amount_in opp) - of_int (amount_in opp) * (9 / 10000)
             - 360000 * of_nat gp"
      by (simp add: gen)
    with h(1-4) show "\<exists>sp tp gp. map_of ps src = Some sp \<and> map_of ps tgt = Some tp \<and>
         gas_price e = Inr gp \<and> gas_estimate opp = 360000 \<and>
         expected_profit opp =
           (tp - sp) * of_int (amount_in opp) - of_int (amount_in opp) * (9 / 10000)
             - 360000 * of_nat gp"
      by blast
  qed
  moreover have "net_profit_of (10 * 10 ^ 18) 2000 2020 360000 (50 * 10 ^ 9) =
     10 ^ 18 * ((2020 - 2000) * 10 - 10 * (9 / 10000) - 360000 * (50 / 10 ^ 9))"
    by (simp add: gen)
  ultimately show ?thesis using gen by blast
qed

theorem analyze_opportunity_net_profit_witness:
  "analyze_opportunity scenario_env ''A'' ''B'' ''sushiswap'' ''uniswap''
     (fetch_prices scenario_env ''A'' ''B'') = Some scenario_opp \<and>
   amount_in scenario_opp = 99999904727935791015 \<and>
   expected_profit scenario_opp =
     (2020 - 2000) * 99999904727935791015 - 99999904727935791015 * (9 / 10000)
       - 360000 * 50000000000"
  using analyze_opportunity_net_profit[of scenario_env "''A''" "''B''" "''sushiswap''" "''uniswap''"
      "fetch_prices scenario_env ''A'' ''B''" scenario_opp] scenario_analysis
  by (simp add: scenario_opp_def)

text \<open>
  The claim as stated fails on a run of the analyzer in the scenario's world: with the
  prices 2000 and 2020 fetched from the venues, the fee rate 0.0009, the gas estimate
  360000 and gas at 50 gwei, the analyzer sizes the trade at 99999904727935791015 wei,
  and the profit it stores is not the one with the flash-loan cost \<open>a * f * p_s\<close>.
\<close>

theorem net_profit_scenario_counterexample:
  "fetch_prices scenario_env ''A'' ''B'' = [(''uniswap'', 2020), (''sushiswap'', 2000)] \<and>
   gas_price scenario_env = Inr (50 * 10 ^ 9) \<and>
   analyze_opportunity scenario_env ''A'' ''B'' ''sushiswap'' ''uniswap''
     (fetch_prices scenario_env ''A'' ''B'') = Some scenario_opp \<and>
   amount_in scenario_opp = 99999904727935791015 \<and>
   gas_estimate scenario_opp = 360000 \<and>
   expected_profit scenario_opp \<noteq>
     (2020 - 2000) * 99999904727935791015 - 99999904727935791015 * (9 / 10000) * 2000
       - 360000 * (50 * 10 ^ 9)"
proof -
  have gp: "gas_price scenario_env = Inr (50 * 10 ^ 9)"
    by (simp add: scenario_env_def)
  have ps: "fetch_prices scenario_env ''A'' ''B'' = [(''uniswap'', 2020), (''sushiswap'', 2000)]"
    by (simp add: fetch_scenario scenario_prices_def)
  have opp: "amount_in scenario_opp = 99999904727935791015" "gas_estimate scenario_opp = 360000"
    "expected_profit scenario_opp \<noteq>
       (2020 - 2000) * 99999904727935791015 - 99999904727935791015 * (9 / 10000) * 2000
         - 360000 * (50 * 10 ^ 9)"
    by (simp_all add: scenario_opp_def)
  from ps gp scenario_analysis opp show ?thesis by (intro conjI)
qed

section \<open>Price Aggregator: snapshots and the cache\<close>

lemma collect_prices_zip:
  "collect_prices (zip ns (map f ns)) = map (\<lambda>n. (n, the (f n))) (filter (\<lambda>n. truthy (f n)) ns)"
  by (induction ns) (auto simp: truthy_def split: option.splits)

lemma fetch_prices_eq:
  "fetch_prices e tok0 tok1 =
     map (\<lambda>n. (n, the (get_dex_price e n tok0 tok1)))
       (filter (\<lambda>n. truthy (get_dex_price e n tok0 tok1)) (dex_interfaces e))"
  by (simp add: fetch_prices_def collect_prices_zip)

lemma map_of_fetch_prices:
  "map_of (fetch_prices e tok0 tok1) d =
     (if d \<in> set (dex_interfaces e) \<and> truthy (get_dex_price e d tok0 tok1)
      then get_dex_price e d tok0 tok1 else None)"
proof -
  have "map_of (map (\<lambda>n. (n, the (f n))) (filter (\<lambda>n. truthy (f n)) ns)) d =
     (if d \<in> set ns \<and> truthy (f d) then f d else None)" for f ns
    by (induction ns) (auto simp: truthy_def split: option.splits)
  then show ?thesis by (simp add: fetch_prices_eq)
qed

lemma get_dex_price_nonneg: "get_dex_price e d tok0 tok1 = Some p \<Longrightarrow> 0 \<le> p"
  by (auto simp: get_dex_price_def get_curve_price_def split: if_splits sum.splits)

lemma fetch_prices_positive: "prices_positive (fetch_prices e tok0 tok1)"
proof -
  have "0 < the (get_dex_price e n tok0 tok1)" if "truthy (get_dex_price e n tok0 tok1)" for n
  proof -
    from that obtain p where p: "get_dex_price e n tok0 tok1 = Some p" "p \<noteq> 0"
      by (auto simp: truthy_def split: option.splits)
    with get_dex_price_nonneg[OF p(1)] show ?thesis by simp
  qed
  then show ?thesis
    by (simp add: prices_positive_def fetch_prices_eq list_all_iff)
qed

lemma get_prices_cases:
  assumes "get_prices e b t tok0 tok1 = (ps, b', calls)"
  shows "(price_cache b (cache_key tok0 tok1) = Some ps \<and> t - last_cache_update b < CACHE_DURATION \<and>
          b' = b \<and> calls = [])
       \<or> ((price_cache b (cache_key tok0 tok1) = None \<or> CACHE_DURATION \<le> t - last_cache_update b) \<and>
          ps = fetch_prices e tok0 tok1 \<and>
          b' = b\<lparr>price_cache := (price_cache b)(cache_key tok0 tok1 \<mapsto> ps), last_cache_update := t\<rparr> \<and>
          calls = dex_interfaces e)"
  using assms
  by (auto simp: get_prices_def refresh_prices_def Let_def split: option.splits if_splits)

lemma get_prices_hit:
  "price_cache b (cache_key tok0 tok1) = Some cached \<Longrightarrow>
   t - last_cache_update b < CACHE_DURATION \<Longrightarrow> get_prices e b t tok0 tok1 = (cached, b, [])"
  by (simp add: get_prices_def)

lemma get_prices_refresh:
  "price_cache b (cache_key tok0 tok1) = None \<or> CACHE_DURATION \<le> t - last_cache_update b \<Longrightarrow>
   get_prices e b t tok0 tok1 =
     (fetch_prices e tok0 tok1,
      b\<lparr>price_cache := (price_cache b)(cache_key tok0 tok1 \<mapsto> fetch_prices e tok0 tok1),
        last_cache_update := t\<rparr>,
      dex_interfaces e)"
  by (auto simp: get_prices_def refresh_prices_def Let_def split: option.splits)

lemma get_dex_price_venue_fails:
  "get_dex_price (venue_fails e d) n tok0 tok1 = (if n = d then None else get_dex_price e n tok0 tok1)"
  by (simp add: get_dex_price_def venue_fails_def get_curve_price_def)

lemma fetch_prices_venue_fails:
  assumes "\<not> truthy (get_dex_price e d tok0 tok1)"
  shows "fetch_prices (venue_fails e d) tok0 tok1 = fetch_prices e tok0 tok1"
proof -
  have names: "dex_interfaces (venue_fails e d) = dex_interfaces e"
    by (simp add: venue_fails_def)
  have t: "truthy (get_dex_price (venue_fails e d) n tok0 tok1) = truthy (get_dex_price e n tok0 tok1)" for n
    using assms by (simp add: get_dex_price_venue_fails truthy_def)
  have "filter (\<lambda>n. truthy (get_dex_price e n tok0 tok1)) (dex_interfaces e) = xs \<Longrightarrow>
        map (\<lambda>n. (n, the (get_dex_price (venue_fails e d) n tok0 tok1))) xs =
        map (\<lambda>n. (n, the (get_dex_price e n tok0 tok1))) xs" for xs
    using assms by (auto simp: get_dex_price_venue_fails)
  then show ?thesis
    by (simp add: fetch_prices_eq names t)
qed

lemma length_filter_other:
  "distinct xs \<Longrightarrow> d \<in> set xs \<Longrightarrow> length (filter (\<lambda>n. n \<noteq> d) xs) = length xs - 1"
proof (induction xs)
  case Nil
  then show ?case by simp
next
  case (Cons x xs)
  show ?case
  proof (cases "x = d")
    case True
    with Cons.prems have "filter (\<lambda>n. n \<noteq> d) xs = xs"
      by (auto simp: filter_id_conv)
    with True show ?thesis by simp
  next
    case False
    with Cons have "length (filter (\<lambda>n. n \<noteq> d) xs) = length xs - 1" "xs \<noteq> []"
      by auto
    with False show ?thesis by (cases xs) auto
  qed
qed

lemma fetch_demo: "fetch_prices demo_env tok0 tok1 = demo_prices"
  by (simp add: fetch_prices_def get_dex_price_def demo_env_def demo_prices_def)

lemma fetch_moved: "fetch_prices moved_env tok0 tok1 = moved_prices"
  by (simp add: fetch_prices_def get_dex_price_def moved_env_def moved_prices_def)

lemma fetch_zero: "fetch_prices zero_env tok0 tok1 = []"
  by (simp add: fetch_prices_def get_dex_price_def zero_env_def)

lemma fetch_zq: "fetch_prices zq_env tok0 tok1 = [(''sushiswap'', 1)]"
  by (simp add: fetch_prices_def get_dex_price_def zq_env_def)

lemma fetch_fails_demo: "fetch_prices (venue_fails demo_env ''uniswap'') tok0 tok1 = [(''sushiswap'', 1)]"
  by (simp add: fetch_prices_def get_dex_price_def venue_fails_def demo_env_def)

lemma first_AB: "get_prices demo_env bot_init 0 ''A'' ''B'' = (demo_prices, bot_after_AB, [''uniswap'', ''sushiswap''])"
proof -
  have "price_cache bot_init (cache_key ''A'' ''B'') = None" by (simp add: bot_init_def)
  then show ?thesis
    by (simp add: get_prices_refresh fetch_demo bot_after_AB_def cache_key_def) (simp add: demo_env_def bot_init_def)
qed

lemma second_CD: "get_prices demo_env bot_after_AB 4 ''C'' ''D'' = (demo_prices, bot_after_CD, [''uniswap'', ''sushiswap''])"
proof -
  have "price_cache bot_after_AB (cache_key ''C'' ''D'') = None" by (simp add: bot_after_AB_def cache_key_def)
  then show ?thesis
    by (simp add: get_prices_refresh fetch_demo cache_key_def) (simp add: demo_env_def bot_after_AB_def bot_after_CD_def bot_init_def)
qed

lemma third_AB: "get_prices moved_env bot_after_CD 6 ''A'' ''B'' = (demo_prices, bot_after_CD, [])"
proof -
  have "price_cache bot_after_CD (cache_key ''A'' ''B'') = Some demo_prices"
    by (simp add: bot_after_CD_def cache_key_def)
  moreover have "6 - last_cache_update bot_after_CD < CACHE_DURATION"
    by (simp add: bot_after_CD_def CACHE_DURATION_def)
  ultimately show ?thesis by (rule get_prices_hit)
qed

text \<open>
  Claim C4 (as the code does it). Freshness is judged by the single timestamp
  \<open>last_cache_update\<close> of the whole cache, not per pair. A call for a pair that has a
  cache entry, made less than 5 seconds after the most recent re-fetch of any pair,
  returns that entry unchanged, leaves the bot unchanged and queries no venue. A call
  for a pair without an entry, or made 5 seconds or more after the most recent
  re-fetch, queries every configured venue, returns the fresh snapshot, overwrites the
  pair's entry and sets the timestamp. Hence a second call for the same pair less than
  5 seconds after a call that re-fetched it returns the identical snapshot with no
  venue query, whatever the world has become.
\<close>

theorem get_prices_cache:
  "(price_cache b (cache_key tok0 tok1) = Some cached \<and> t - last_cache_update b < CACHE_DURATION \<longrightarrow>
      get_prices e b t tok0 tok1 = (cached, b, [])) \<and>
   (price_cache b (cache_key tok0 tok1) = None \<or> CACHE_DURATION \<le> t - last_cache_update b \<longrightarrow>
      get_prices e b t tok0 tok1 =
        (fetch_prices e tok0 tok1,
         b\<lparr>price_cache := (price_cache b)(cache_key tok0 tok1 \<mapsto> fetch_prices e tok0 tok1),
           last_cache_update := t\<rparr>,
         dex_interfaces e)) \<and>
   ((price_cache b (cache_key tok0 tok1) = None \<or> CACHE_DURATION \<le> t - last_cache_update b) \<and>
    get_prices e b t tok0 tok1 = (ps, b1, calls) \<and> t2 - t < CACHE_DURATION \<longrightarrow>
      get_prices e2 b1 t2 tok0 tok1 = (ps, b1, []))"
proof -
  have third: "get_prices e2 b1 t2 tok0 tok1 = (ps, b1, [])"
    if miss: "price_cache b (cache_key tok0 tok1) = None \<or> CACHE_DURATION \<le> t - last_cache_update b"
      and first: "get_prices e b t tok0 tok1 = (ps, b1, calls)" and near: "t2 - t < CACHE_DURATION"
  proof -
    from first get_prices_refresh[OF miss, of e]
    have "price_cache b1 (cache_key tok0 tok1) = Some ps" "last_cache_update b1 = t"
      by auto
    with near show ?thesis by (simp add: get_prices_hit)
  qed
  show ?thesis
    using get_prices_hit[of b tok0 tok1 cached t e] get_prices_refresh[of b tok0 tok1 t e] third
    by blast
qed

theorem get_prices_cache_witness:
  "get_prices demo_env bot_init 0 ''A'' ''B'' = (demo_prices, bot_after_AB, [''uniswap'', ''sushiswap'']) \<and>
   get_prices moved_env bot_after_AB 3 ''A'' ''B'' = (demo_prices, bot_after_AB, []) \<and>
   get_prices moved_env bot_after_AB 5 ''A'' ''B'' =
     (moved_prices, bot_after_AB\<lparr>price_cache := (price_cache bot_after_AB)(''A-B'' \<mapsto> moved_prices),
                                 last_cache_update := 5\<rparr>, [''uniswap'', ''sushiswap''])"
proof -
  have miss: "price_cache bot_init (cache_key ''A'' ''B'') = None \<or>
              CACHE_DURATION \<le> 0 - last_cache_update bot_init"
    by (simp add: bot_init_def)
  have near: "(3::rat) - 0 < CACHE_DURATION" by (simp add: CACHE_DURATION_def)
  have late: "price_cache bot_after_AB (cache_key ''A'' ''B'') = None \<or>
              CACHE_DURATION \<le> 5 - last_cache_update bot_after_AB"
    by (simp add: bot_after_AB_def CACHE_DURATION_def)
  from get_prices_cache[of bot_init "''A''" "''B''" demo_prices 0 demo_env demo_prices bot_after_AB
      "[''uniswap'', ''sushiswap'']" 3 moved_env] miss near first_AB
  have two: "get_prices moved_env bot_after_AB 3 ''A'' ''B'' = (demo_prices, bot_after_AB, [])"
    by blast
  have names: "dex_interfaces moved_env = [''uniswap'', ''sushiswap'']"
    by (simp add: moved_env_def)
  from get_prices_cache[of bot_after_AB "''A''" "''B''" demo_prices 5 moved_env] late
  have "get_prices moved_env bot_after_AB 5 ''A'' ''B'' =
     (fetch_prices moved_env ''A'' ''B'',
      bot_after_AB\<lparr>price_cache := (price_cache bot_after_AB)(cache_key ''A'' ''B'' \<mapsto>
                      fetch_prices moved_env ''A'' ''B''),
                   last_cache_update := 5\<rparr>,
      dex_interfaces moved_env)"
    by blast
  then have three: "get_prices moved_env bot_after_AB 5 ''A'' ''B'' =
     (moved_prices, bot_after_AB\<lparr>price_cache := (price_cache bot_after_AB)(''A-B'' \<mapsto> moved_prices),
                                 last_cache_update := 5\<rparr>, [''uniswap'', ''sushiswap''])"
    by (simp add: fetch_moved cache_key_def names)
  from first_AB two three show ?thesis by simp
qed

text \<open>
  The claim as stated fails: A-B is aggregated at time 0 and C-D at time 4; at time 6
  the snapshot of A-B is 6 seconds old, yet the call for A-B returns it without
  querying any venue, because C-D was re-fetched 2 seconds before. The venues would
  have quoted other prices.
\<close>

theorem get_prices_per_pair_counterexample:
  "get_prices demo_env bot_init 0 ''A'' ''B'' = (demo_prices, bot_after_AB, [''uniswap'', ''sushiswap'']) \<and>
   get_prices demo_env bot_after_AB 4 ''C'' ''D'' = (demo_prices, bot_after_CD, [''uniswap'', ''sushiswap'']) \<and>
   CACHE_DURATION \<le> 6 - 0 \<and>
   get_prices moved_env bot_after_CD 6 ''A'' ''B'' = (demo_prices, bot_after_CD, []) \<and>
   fetch_prices moved_env ''A'' ''B'' \<noteq> demo_prices"
  using first_AB second_CD third_AB
  by (simp add: CACHE_DURATION_def fetch_moved moved_prices_def demo_prices_def)

text \<open>
  Claim C6 (as the code does it). In an aggregation that queries the venues, if one
  configured venue fails (its price cannot be computed) and every other configured
  venue yields a non-zero price, the call returns a snapshot with exactly the other
  N - 1 venues, each with its price; the failed venue is absent from the mapping.
  The call cannot raise: \<open>_get_dex_price\<close> catches every exception of a venue, which
  is why \<open>get_prices\<close> has no error result.
\<close>

theorem one_venue_fails:
  assumes "get_prices e b t tok0 tok1 = (ps, b', calls)" and "calls \<noteq> []"
    and "distinct (dex_interfaces e)"
    and "d \<in> set (dex_interfaces e)" and "get_dex_price e d tok0 tok1 = None"
    and "\<forall>n\<in>set (dex_interfaces e). n \<noteq> d \<longrightarrow> truthy (get_dex_price e n tok0 tok1)"
  shows "length ps = length (dex_interfaces e) - 1 \<and>
         map fst ps = filter (\<lambda>n. n \<noteq> d) (dex_interfaces e) \<and>
         map_of ps d = None \<and>
         (\<forall>n\<in>set (dex_interfaces e). n \<noteq> d \<longrightarrow> map_of ps n = get_dex_price e n tok0 tok1)"
proof -
  from get_prices_cases[OF assms(1)] assms(2) have ps: "ps = fetch_prices e tok0 tok1"
    by auto
  have nt: "\<not> truthy (get_dex_price e d tok0 tok1)"
    using assms(5) by (simp add: truthy_def)
  have flt: "filter (\<lambda>n. truthy (get_dex_price e n tok0 tok1)) (dex_interfaces e) =
             filter (\<lambda>n. n \<noteq> d) (dex_interfaces e)"
    using assms(6) nt by (intro filter_cong) auto
  have names: "map fst ps = filter (\<lambda>n. n \<noteq> d) (dex_interfaces e)"
    by (simp add: ps fetch_prices_eq flt comp_def)
  have "length (filter (\<lambda>n. n \<noteq> d) (dex_interfaces e)) = length (dex_interfaces e) - 1"
    using assms(3,4) by (rule length_filter_other)
  with names have len: "length ps = length (dex_interfaces e) - 1"
    using length_map[of fst ps] by simp
  have absent: "map_of ps d = None"
    by (simp add: ps map_of_fetch_prices nt)
  have others: "\<forall>n\<in>set (dex_interfaces e). n \<noteq> d \<longrightarrow> map_of ps n = get_dex_price e n tok0 tok1"
    using assms(6) by (simp add: ps map_of_fetch_prices)
  from len names absent others show ?thesis by blast
qed

theorem one_venue_fails_witness:
  "get_dex_price (venue_fails demo_env ''uniswap'') ''uniswap'' ''A'' ''B'' = None \<and>
   get_dex_price (venue_fails demo_env ''uniswap'') ''sushiswap'' ''A'' ''B'' = Some 1 \<and>
   fst (get_prices (venue_fails demo_env ''uniswap'') bot_init 0 ''A'' ''B'') = [(''sushiswap'', 1)] \<and>
   length (fst (get_prices (venue_fails demo_env ''uniswap'') bot_init 0 ''A'' ''B'')) = 2 - 1 \<and>
   map_of (fst (get_prices (venue_fails demo_env ''uniswap'') bot_init 0 ''A'' ''B'')) ''uniswap'' = None"
proof -
  let ?e = "venue_fails demo_env ''uniswap''"
  let ?b = "bot_init\<lparr>price_cache := (price_cache bot_init)(cache_key ''A'' ''B'' \<mapsto> fetch_prices ?e ''A'' ''B''),
                     last_cache_update := 0\<rparr>"
  have names: "dex_interfaces ?e = [''uniswap'', ''sushiswap'']"
    by (simp add: venue_fails_def demo_env_def)
  have "price_cache bot_init (cache_key ''A'' ''B'') = None" by (simp add: bot_init_def)
  then have g: "get_prices ?e bot_init 0 ''A'' ''B'' = (fetch_prices ?e ''A'' ''B'', ?b, dex_interfaces ?e)"
    by (simp add: get_prices_refresh)
  have u: "get_dex_price ?e ''uniswap'' ''A'' ''B'' = None"
    by (simp add: get_dex_price_venue_fails)
  have s: "get_dex_price ?e ''sushiswap'' ''A'' ''B'' = Some 1"
    by (simp add: get_dex_price_venue_fails) (simp add: get_dex_price_def demo_env_def)
  have "length (fetch_prices ?e ''A'' ''B'') = length (dex_interfaces ?e) - 1 \<and>
        map_of (fetch_prices ?e ''A'' ''B'') ''uniswap'' = None"
    using one_venue_fails[OF g, of "''uniswap''"] u s
    by (simp add: names truthy_def)
  with g u s show ?thesis by (simp add: names fetch_fails_demo)
qed

text \<open>
  The claim as stated fails when a venue that answers quotes zero: with \<open>uniswap\<close>
  raising and \<open>sushiswap\<close> returning an output amount of 0, exactly one of the two
  venues fails and the snapshot is empty.
\<close>

theorem one_venue_fails_zero_quote_counterexample:
  "dex_interfaces zero_env = [''uniswap'', ''sushiswap''] \<and>
   getAmountsOut zero_env ''uniswap'' (10 ^ 18) [''A'', ''B''] = Inl TransportError \<and>
   getAmountsOut zero_env ''sushiswap'' (10 ^ 18) [''A'', ''B''] = Inr [10 ^ 18, 0] \<and>
   get_dex_price zero_env ''sushiswap'' ''A'' ''B'' = Some 0 \<and>
   fst (get_prices zero_env bot_init 0 ''A'' ''B'') = [] \<and>
   length (fst (get_prices zero_env bot_init 0 ''A'' ''B'')) \<noteq> 2 - 1"
proof -
  have "price_cache bot_init (cache_key ''A'' ''B'') = None" by (simp add: bot_init_def)
  then have "fst (get_prices zero_env bot_init 0 ''A'' ''B'') = []"
    by (simp add: get_prices_refresh fetch_zero)
  then show ?thesis
    by (simp add: get_dex_price_def) (simp add: zero_env_def)
qed

text \<open>
  Claim C9. Starting from a cache whose prices are strictly positive (the empty cache
  is one), every snapshot returned by the aggregator has only strictly positive prices
  and the cache keeps that property. A venue whose quoted output is exactly zero is
  absent from the fresh snapshot, and the fresh snapshot is the one obtained when the
  call to that venue raises.
\<close>

theorem snapshot_prices_positive:
  assumes "cache_positive b" and "get_prices e b t tok0 tok1 = (ps, b', calls)"
  shows "prices_positive ps \<and> cache_positive b' \<and>
         (\<forall>d amounts. getAmountsOut e d (10 ^ 18) [tok0, tok1] = Inr amounts \<and>
             2 \<le> length amounts \<and> amounts ! 1 = 0 \<longrightarrow>
             map_of (fetch_prices e tok0 tok1) d = None \<and>
             fetch_prices e tok0 tok1 = fetch_prices (venue_fails e d) tok0 tok1)"
proof -
  from get_prices_cases[OF assms(2)] have pos: "prices_positive ps \<and> cache_positive b'"
  proof
    assume "price_cache b (cache_key tok0 tok1) = Some ps \<and> t - last_cache_update b < CACHE_DURATION \<and>
          b' = b \<and> calls = []"
    with assms(1) show ?thesis by (auto simp: cache_positive_def)
  next
    assume h: "(price_cache b (cache_key tok0 tok1) = None \<or> CACHE_DURATION \<le> t - last_cache_update b) \<and>
          ps = fetch_prices e tok0 tok1 \<and>
          b' = b\<lparr>price_cache := (price_cache b)(cache_key tok0 tok1 \<mapsto> ps), last_cache_update := t\<rparr> \<and>
          calls = dex_interfaces e"
    then have "prices_positive ps" by (simp add: fetch_prices_positive)
    with h assms(1) show ?thesis by (auto simp: cache_positive_def)
  qed
  have zero: "map_of (fetch_prices e tok0 tok1) d = None \<and>
             fetch_prices e tok0 tok1 = fetch_prices (venue_fails e d) tok0 tok1"
    if "getAmountsOut e d (10 ^ 18) [tok0, tok1] = Inr amounts" "2 \<le> length amounts" "amounts ! 1 = 0"
    for d amounts
  proof -
    from that have "\<not> truthy (get_dex_price e d tok0 tok1)"
      by (simp add: truthy_def get_dex_price_def get_curve_price_def)
    then show ?thesis
      by (simp add: map_of_fetch_prices fetch_prices_venue_fails)
  qed
  from pos zero show ?thesis by blast
qed

theorem snapshot_prices_positive_witness:
  "cache_positive bot_init \<and>
   getAmountsOut zq_env ''uniswap'' (10 ^ 18) [''A'', ''B''] = Inr [10 ^ 18, 0] \<and>
   fst (get_prices zq_env bot_init 0 ''A'' ''B'') = [(''sushiswap'', 1)] \<and>
   prices_positive (fst (get_prices zq_env bot_init 0 ''A'' ''B'')) \<and>
   map_of (fetch_prices zq_env ''A'' ''B'') ''uniswap'' = None \<and>
   fetch_prices (venue_fails zq_env ''uniswap'') ''A'' ''B'' = [(''sushiswap'', 1)]"
proof -
  let ?b = "bot_init\<lparr>price_cache := (price_cache bot_init)(cache_key ''A'' ''B'' \<mapsto> fetch_prices zq_env ''A'' ''B''),
                     last_cache_update := 0\<rparr>"
  have cp: "cache_positive bot_init" by (simp add: cache_positive_def bot_init_def)
  have "price_cache bot_init (cache_key ''A'' ''B'') = None" by (simp add: bot_init_def)
  then have g: "get_prices zq_env bot_init 0 ''A'' ''B'' = (fetch_prices zq_env ''A'' ''B'', ?b, dex_interfaces zq_env)"
    by (simp add: get_prices_refresh)
  have q: "getAmountsOut zq_env ''uniswap'' (10 ^ 18) [''A'', ''B''] = Inr [10 ^ 18, 0]"
    by (simp add: zq_env_def)
  from snapshot_prices_positive[OF cp g]
  have pp: "prices_positive (fetch_prices zq_env ''A'' ''B'')"
    and z: "\<forall>d amounts. getAmountsOut zq_env d (10 ^ 18) [''A'', ''B''] = Inr amounts \<and>
             2 \<le> length amounts \<and> amounts ! 1 = 0 \<longrightarrow>
             map_of (fetch_prices zq_env ''A'' ''B'') d = None \<and>
             fetch_prices zq_env ''A'' ''B'' = fetch_prices (venue_fails zq_env d) ''A'' ''B''"
    by blast+
  have "2 \<le> length [10 ^ 18, 0::nat] \<and> [10 ^ 18, 0::nat] ! 1 = 0" by simp
  with z q have m: "map_of (fetch_prices zq_env ''A'' ''B'') ''uniswap'' = None"
    and eq: "fetch_prices zq_env ''A'' ''B'' = fetch_prices (venue_fails zq_env ''uniswap'') ''A'' ''B''"
    by blast+
  have vf: "fetch_prices (venue_fails zq_env ''uniswap'') ''A'' ''B'' = [(''sushiswap'', 1)]"
    using eq[symmetric] by (simp add: fetch_zq)
  from pp cp q g m vf show ?thesis by (simp add: fetch_zq)
qed

section \<open>Validation Guard\<close>








text \<open>
  Claim C3 fails on the code. The opportunity \<open>demo_opp\<close> is discovered from the
  snapshot taken at time 0, where \<open>uniswap\<close> quotes 2. At time 10 \<open>uniswap\<close> quotes
  3, a move of a third of the current price. The guard re-fetches, which overwrites
  the cache entry of the pair, and then compares the fresh snapshot with the cache
  entry, that is with itself: it accepts. At time 3 it does not re-fetch at all: it
  gets the cached snapshot back and accepts as well.
\<close>

theorem validation_accepts_moved_price:
  "get_prices demo_env bot_init 0 ''A'' ''B'' = (demo_prices, bot_after_AB, [''uniswap'', ''sushiswap'']) \<and>
   analyze_opportunity demo_env ''A'' ''B'' ''sushiswap'' ''uniswap'' demo_prices = Some demo_opp \<and>
   map_of demo_prices ''uniswap'' = Some 2 \<and>
   map_of (fetch_prices moved_env ''A'' ''B'') ''uniswap'' = Some 3 \<and>
   validate_opportunity moved_env bot_after_AB 10 demo_opp = (True, bot_moved, [''uniswap'', ''sushiswap'']) \<and>
   validate_opportunity moved_env bot_after_AB 3 demo_opp = (True, bot_after_AB, [])"
proof -
  have gp: "gas_price moved_env = Inr 50000000000" and names: "dex_interfaces moved_env = [''uniswap'', ''sushiswap'']"
    by (simp_all add: moved_env_def)
  have late: "CACHE_DURATION \<le> 10 - last_cache_update bot_after_AB"
    by (simp add: bot_after_AB_def CACHE_DURATION_def)
  have bm: "bot_after_AB\<lparr>price_cache := (price_cache bot_after_AB)(cache_key ''A'' ''B'' \<mapsto> moved_prices),
                     last_cache_update := 10\<rparr> = bot_moved"
    by (simp add: bot_after_AB_def bot_moved_def cache_key_def bot_init_def)
  have g10: "get_prices moved_env bot_after_AB 10 ''A'' ''B'' = (moved_prices, bot_moved, [''uniswap'', ''sushiswap''])"
    using late by (simp add: get_prices_refresh fetch_moved names bm)
  have g3: "get_prices moved_env bot_after_AB 3 ''A'' ''B'' = (demo_prices, bot_after_AB, [])"
    by (rule get_prices_hit) (simp_all add: bot_after_AB_def cache_key_def CACHE_DURATION_def)
  have v10: "verify_prices bot_moved moved_prices demo_opp"
    by (simp add: verify_prices_def verify_prices_body_def deviation_def bot_moved_def moved_prices_def
          demo_opp_def cache_key_def MAX_PRICE_DEVIATION_def)
  have v3: "verify_prices bot_after_AB demo_prices demo_opp"
    by (simp add: verify_prices_def verify_prices_body_def deviation_def bot_after_AB_def demo_prices_def
          demo_opp_def cache_key_def MAX_PRICE_DEVIATION_def)
  have pre: "\<not> expected_profit demo_opp \<le> min_profit_threshold"
     "\<not> expected_profit demo_opp \<le> of_int (gas_estimate demo_opp * int 50000000000)"
     "token0 demo_opp = ''A''" "token1 demo_opp = ''B''"
    by (simp_all add: demo_opp_def min_profit_threshold_def)
  have a10: "validate_opportunity moved_env bot_after_AB 10 demo_opp = (True, bot_moved, [''uniswap'', ''sushiswap''])"
    using pre by (simp add: validate_opportunity_def validate_opportunity_body_def gp g10 v10)
  have a3: "validate_opportunity moved_env bot_after_AB 3 demo_opp = (True, bot_after_AB, [])"
    using pre by (simp add: validate_opportunity_def validate_opportunity_body_def gp g3 v3)
  from first_AB demo_analysis a10 a3 show ?thesis
    by (simp add: fetch_moved) (simp add: demo_prices_def moved_prices_def)
qed

lemma map_of_positive:
  "prices_positive ps \<Longrightarrow> map_of ps d = Some p \<Longrightarrow> 0 < p"
  by (induction ps) (auto simp: prices_positive_def split: if_splits)

lemma get_prices_cached:
  assumes "get_prices e b t tok0 tok1 = (ps, b', calls)"
  shows "price_cache b' (cache_key tok0 tok1) = Some ps"
  using get_prices_cases[OF assms] by auto

text \<open>
  The defect behind it, in general: whatever the world and the time, once the guard
  has fetched its snapshot the cache entry of the pair is that snapshot, so both
  deviations are 0 and the price check passes whenever the snapshot holds both venues.
\<close>

theorem price_check_compares_snapshot_with_itself:
  assumes "cache_positive b"
    and "get_prices e b t (token0 opp) (token1 opp) = (ps, b', calls)"
    and "map_of ps (source_dex opp) = Some sp" and "map_of ps (target_dex opp) = Some tp"
  shows "deviation b' opp sp (source_dex opp) = Inr 0 \<and>
         deviation b' opp tp (target_dex opp) = Inr 0 \<and>
         verify_prices b' ps opp"
proof -
  have pos: "prices_positive ps"
    using get_prices_cases[OF assms(2)] assms(1) fetch_prices_positive
    by (auto simp: cache_positive_def)
  from map_of_positive[OF pos assms(3)] map_of_positive[OF pos assms(4)]
  have nz: "sp \<noteq> 0" "tp \<noteq> 0" by auto
  have c: "price_cache b' (cache_key (token0 opp) (token1 opp)) = Some ps"
    by (rule get_prices_cached[OF assms(2)])
  have ds: "deviation b' opp sp (source_dex opp) = Inr 0"
    and dt: "deviation b' opp tp (target_dex opp) = Inr 0"
    using nz by (simp_all add: deviation_def c assms(3,4))
  then have "verify_prices b' ps opp"
    by (simp add: verify_prices_def verify_prices_body_def assms(3,4) MAX_PRICE_DEVIATION_def)
  with ds dt show ?thesis by simp
qed

theorem price_check_compares_snapshot_with_itself_witness:
  "cache_positive bot_after_AB \<and>
   get_prices moved_env bot_after_AB 10 ''A'' ''B'' = (moved_prices, bot_moved, [''uniswap'', ''sushiswap'']) \<and>
   deviation bot_moved demo_opp 3 ''uniswap'' = Inr 0 \<and>
   verify_prices bot_moved moved_prices demo_opp"
proof -
  have cp: "cache_positive bot_after_AB"
    by (simp add: cache_positive_def bot_after_AB_def bot_init_def prices_positive_def demo_prices_def)
  have names: "dex_interfaces moved_env = [''uniswap'', ''sushiswap'']"
    by (simp add: moved_env_def)
  have late: "CACHE_DURATION \<le> 10 - last_cache_update bot_after_AB"
    by (simp add: bot_after_AB_def CACHE_DURATION_def)
  have bm: "bot_after_AB\<lparr>price_cache := (price_cache bot_after_AB)(cache_key ''A'' ''B'' \<mapsto> moved_prices),
                     last_cache_update := 10\<rparr> = bot_moved"
    by (simp add: bot_after_AB_def bot_moved_def cache_key_def bot_init_def)
  have g: "get_prices moved_env bot_after_AB 10 (token0 demo_opp) (token1 demo_opp) =
             (moved_prices, bot_moved, [''uniswap'', ''sushiswap''])"
    using late by (simp add: get_prices_refresh fetch_moved names bm demo_opp_def)
  have s: "map_of moved_prices (source_dex demo_opp) = Some 1"
    and t: "map_of moved_prices (target_dex demo_opp) = Some 3"
    by (simp_all add: moved_prices_def demo_opp_def)
  from price_check_compares_snapshot_with_itself[OF cp g s t] g cp
  show ?thesis by (simp add: demo_opp_def)
qed

section \<open>Execution Submitter: the bundle and the statistics\<close>

lemma relay_accepted_True:
  "relay_accepted result = Inr True \<longleftrightarrow>
     (\<exists>items v. result = JObj items \<and> map_of items ''result'' = Some v \<and> v \<noteq> JNull)"
  by (cases result) (auto simp: relay_accepted_def split: option.splits)

text \<open>
  Claim C8 (as the code does it). When the current block number can be read, the
  submitter posts exactly one request, of method \<open>eth_sendBundle\<close>, whose bundle
  holds the raw transaction, targets block \<open>current_block + 1\<close> (in hexadecimal) and
  carries \<open>minTimestamp = 0\<close> and \<open>maxTimestamp = int(now) + 120\<close>; it reports success
  if and only if the relay answers with a JSON object whose \<open>result\<close> field is present
  and not null. When the block number cannot be read it posts nothing and reports
  failure.
\<close>

theorem submit_to_flashbots_bundle:
  "(block_number x = Inr current_block \<longrightarrow>
      snd (submit_to_flashbots x current_time raw_tx) =
        [\<lparr>jsonrpc = ''2.0'', rpc_id = 1, rpc_method = ''eth_sendBundle'',
          params = [\<lparr>txs = [raw_tx], blockNumber = py_hex (current_block + 1),
                     minTimestamp = 0, maxTimestamp = py_int current_time + 120\<rparr>]\<rparr>] \<and>
      (fst (submit_to_flashbots x current_time raw_tx) \<longleftrightarrow>
         (\<exists>items v. relay_post x (bundle_request raw_tx current_block current_time) = Inr (JObj items) \<and>
            map_of items ''result'' = Some v \<and> v \<noteq> JNull))) \<and>
   (block_number x = Inl err \<longrightarrow> submit_to_flashbots x current_time raw_tx = (False, []))"
proof -
  have posted: "snd (submit_to_flashbots x current_time raw_tx) =
      [bundle_request raw_tx current_block current_time]"
    if "block_number x = Inr current_block"
    using that by (simp add: submit_to_flashbots_def Let_def split: sum.splits)
  have flag: "fst (submit_to_flashbots x current_time raw_tx) \<longleftrightarrow>
      (\<exists>result. relay_post x (bundle_request raw_tx current_block current_time) = Inr result \<and>
         relay_accepted result = Inr True)"
    if "block_number x = Inr current_block"
    using that by (auto simp: submit_to_flashbots_def Let_def split: sum.splits)
  have none: "submit_to_flashbots x current_time raw_tx = (False, [])" if "block_number x = Inl err"
    using that by (simp add: submit_to_flashbots_def)
  from posted flag none show ?thesis
    by (auto simp: relay_accepted_True bundle_request_def)
qed

lemma hex_demo: "py_hex 18000001 = ''0x112a881''"
  by (simp add: py_hex_def hex_digit_def)

lemma demo_posted:
  "submit_to_flashbots demo_relay 1700000000 ''0xf86b'' =
     (True, [\<lparr>jsonrpc = ''2.0'', rpc_id = 1, rpc_method = ''eth_sendBundle'',
          params = [\<lparr>txs = [''0xf86b''], blockNumber = ''0x112a881'',
                     minTimestamp = 0, maxTimestamp = 1700000120\<rparr>]\<rparr>])"
  by (simp add: submit_to_flashbots_def demo_relay_def bundle_request_def relay_accepted_def
        py_int_def hex_demo)

theorem submit_to_flashbots_bundle_witness:
  "block_number demo_relay = Inr 18000000 \<and>
   submit_to_flashbots demo_relay 1700000000 ''0xf86b'' =
     (True, [\<lparr>jsonrpc = ''2.0'', rpc_id = 1, rpc_method = ''eth_sendBundle'',
          params = [\<lparr>txs = [''0xf86b''], blockNumber = ''0x112a881'',
                     minTimestamp = 0, maxTimestamp = 1700000120\<rparr>]\<rparr>]) \<and>
   fst (submit_to_flashbots rejecting_relay 1700000000 ''0xf86b'') = False \<and>
   fst (submit_to_flashbots unreachable_relay 1700000000 ''0xf86b'') = False"
proof -
  have bn: "block_number demo_relay = Inr 18000000" "block_number rejecting_relay = Inr 18000000"
    "block_number unreachable_relay = Inr 18000000"
    by (simp_all add: demo_relay_def rejecting_relay_def unreachable_relay_def)
  have rej: "relay_post rejecting_relay r = Inr (JObj [(''jsonrpc'', JStr ''2.0''),
                       (''id'', JNum 1), (''error'', JObj [(''code'', JNum (- 32000))])])" for r
    by (simp add: rejecting_relay_def)
  have unr: "relay_post unreachable_relay r = Inl TransportError" for r
    by (simp add: unreachable_relay_def)
  from submit_to_flashbots_bundle[of rejecting_relay 18000000 1700000000 "''0xf86b''"] bn(2)
  have one: "fst (submit_to_flashbots rejecting_relay 1700000000 ''0xf86b'') = False"
    by (simp add: rej)
  from submit_to_flashbots_bundle[of unreachable_relay 18000000 1700000000 "''0xf86b''"] bn(3)
  have two: "fst (submit_to_flashbots unreachable_relay 1700000000 ''0xf86b'') = False"
    by (simp add: unr)
  from bn(1) demo_posted one two show ?thesis by simp
qed

text \<open>
  The claim as stated fails on the lower end of the validity window: at time
  1700000000 the bundle's \<open>minTimestamp\<close> is 0, not the current time.
\<close>

theorem bundle_min_timestamp_counterexample:
  "map minTimestamp (concat (map params (snd (submit_to_flashbots demo_relay 1700000000 ''0xf86b'')))) = [0] \<and>
   map minTimestamp (concat (map params (snd (submit_to_flashbots demo_relay 1700000000 ''0xf86b''))))
     \<noteq> [py_int 1700000000]"
  by (simp add: demo_posted py_int_def)

subsection \<open>Decimal addition\<close>

lemma num_digits_pos: "0 < num_digits n"
  by (subst num_digits.simps) simp

lemma num_digits_bounds:
  "0 < n \<Longrightarrow> 10 ^ (num_digits n - 1) \<le> n \<and> n < 10 ^ num_digits n"
proof (induction n rule: num_digits.induct)
  case (1 n)
  show ?case
  proof (cases "n < 10")
    case True
    with "1.prems" show ?thesis by (subst (1 2) num_digits.simps) simp
  next
    case False
    then have pos: "0 < n div 10" by simp
    from "1.IH"[OF False pos]
    have lo: "10 ^ (num_digits (n div 10) - 1) \<le> n div 10"
      and hi: "n div 10 < 10 ^ num_digits (n div 10)" by auto
    have nd: "num_digits n = Suc (num_digits (n div 10))"
      using False by (subst num_digits.simps) simp
    have "10 * 10 ^ (num_digits (n div 10) - 1) \<le> 10 * (n div 10)"
      using lo by simp
    also have "\<dots> \<le> n" by simp
    finally have a: "10 ^ (num_digits n - 1) \<le> n"
      using num_digits_pos[of "n div 10"] by (simp add: nd power_Suc[symmetric] del: power_Suc)
    have "n div 10 + 1 \<le> 10 ^ num_digits (n div 10)" using hi by simp
    then have "10 * (n div 10 + 1) \<le> 10 * 10 ^ num_digits (n div 10)" by simp
    moreover have "n < 10 * (n div 10 + 1)" by presburger
    ultimately have b: "n < 10 ^ num_digits n" by (simp add: nd)
    from a b show ?thesis by simp
  qed
qed

lemma digits_of_floor:
  fixes y :: rat
  assumes "1 \<le> y"
  shows "10 ^ (num_digits (nat \<lfloor>y\<rfloor>) - 1) \<le> y \<and> y < 10 ^ num_digits (nat \<lfloor>y\<rfloor>)"
proof -
  let ?n = "nat \<lfloor>y\<rfloor>"
  from assms have fl: "1 \<le> \<lfloor>y\<rfloor>" by simp
  then have pos: "0 < ?n" by simp
  have eq: "(of_nat ?n :: rat) = of_int \<lfloor>y\<rfloor>" using fl by simp
  from num_digits_bounds[OF pos]
  have lo: "10 ^ (num_digits ?n - 1) \<le> ?n" and hi: "?n < 10 ^ num_digits ?n" by auto
  from lo have "(of_nat (10 ^ (num_digits ?n - 1)) :: rat) \<le> of_nat ?n"
    by (simp only: of_nat_le_iff)
  then have "(10 ^ (num_digits ?n - 1) :: rat) \<le> of_int \<lfloor>y\<rfloor>" by (simp add: eq)
  also have "\<dots> \<le> y" by simp
  finally have a: "10 ^ (num_digits ?n - 1) \<le> y" .
  from hi have "Suc ?n \<le> 10 ^ num_digits ?n" by (rule Suc_leI)
  then have "(of_nat (Suc ?n) :: rat) \<le> of_nat (10 ^ num_digits ?n)"
    by (simp only: of_nat_le_iff)
  then have "of_int \<lfloor>y\<rfloor> + 1 \<le> (10 ^ num_digits ?n :: rat)" by (simp add: eq)
  moreover have "y < of_int \<lfloor>y\<rfloor> + 1" by linarith
  ultimately have b: "y < 10 ^ num_digits ?n" by linarith
  from a b show ?thesis by simp
qed

lemma powi_pred: "0 < d \<Longrightarrow> (10::rat) powi (int d - 1) = 10 ^ (d - 1)"
proof -
  assume "0 < d"
  then have "int d - 1 = int (d - 1)" by simp
  then show ?thesis by (simp only: power_int_of_nat)
qed

lemma adjusted_bounds:
  assumes "x \<noteq> 0"
  shows "10 powi adjusted x \<le> \<bar>x\<bar> \<and> \<bar>x\<bar> < 10 powi (adjusted x + 1)"
proof (cases "1 \<le> \<bar>x\<bar>")
  case True
  let ?d = "num_digits (nat \<lfloor>\<bar>x\<bar>\<rfloor>)"
  have adj: "adjusted x = int ?d - 1" using True by (simp add: adjusted_def)
  from digits_of_floor[OF True] have "10 ^ (?d - 1) \<le> \<bar>x\<bar>" "\<bar>x\<bar> < 10 ^ ?d" by auto
  then show ?thesis
    using num_digits_pos[of "nat \<lfloor>\<bar>x\<bar>\<rfloor>"] by (simp add: adj powi_pred)
next
  case False
  let ?k = "num_digits (nat \<lfloor>1 / \<bar>x\<bar>\<rfloor>)"
  let ?y = "\<bar>x\<bar> * 10 ^ ?k"
  let ?d = "num_digits (nat \<lfloor>?y\<rfloor>)"
  have xpos: "0 < \<bar>x\<bar>" using assms by simp
  have adj: "adjusted x = int ?d - 1 - int ?k" using False by (simp add: adjusted_def Let_def)
  from False xpos have "1 \<le> 1 / \<bar>x\<bar>" by (simp add: field_simps)
  from digits_of_floor[OF this] have "1 / \<bar>x\<bar> < 10 ^ ?k" by simp
  with xpos have "1 < ?y" by (simp add: field_simps)
  then have "1 \<le> ?y" by simp
  from digits_of_floor[OF this] have lo: "10 ^ (?d - 1) \<le> ?y" and hi: "?y < 10 ^ ?d" by auto
  have p: "(0::rat) < 10 ^ ?k" by simp
  have e1: "(10::rat) powi (int ?d - 1 - int ?k) = 10 ^ (?d - 1) / 10 ^ ?k"
    using power_int_diff[of "10::rat" "int ?d - 1" "int ?k"] num_digits_pos[of "nat \<lfloor>?y\<rfloor>"]
    by (simp add: powi_pred)
  have e2: "(10::rat) powi (int ?d - 1 - int ?k + 1) = 10 ^ ?d / 10 ^ ?k"
    using power_int_diff[of "10::rat" "int ?d" "int ?k"] by simp
  from lo p have a: "10 ^ (?d - 1) / 10 ^ ?k \<le> \<bar>x\<bar>" by (simp add: field_simps)
  from hi p have b: "\<bar>x\<bar> < 10 ^ ?d / 10 ^ ?k" by (simp add: field_simps)
  from a b show ?thesis by (simp only: adj e1 e2)
qed

lemma round_half_even_of_int [simp]: "round_half_even (of_int z) = z"
  by (simp add: round_half_even_def)

lemma powi_less_imp: "(10::rat) powi a < 10 powi b \<Longrightarrow> a < b"
proof (rule ccontr)
  assume lt: "(10::rat) powi a < 10 powi b" and "\<not> a < b"
  then have "b \<le> a" by simp
  then have "(10::rat) powi b \<le> 10 powi a" by (intro power_int_increasing) simp_all
  with lt show False by simp
qed

lemma decimal_fix_exact:
  assumes x: "x = of_int c * 10 powi k" and c: "\<bar>c\<bar> < 10 ^ 28"
    and k: "Etiny \<le> k" and big: "adjusted x \<le> Emax"
  shows "decimal_fix x = Inr x"
proof (cases "x = 0")
  case True
  then show ?thesis by (simp add: decimal_fix_def)
next
  case False
  define e where "e = max (adjusted x - 27) Etiny"
  from adjusted_bounds[OF False] have lo: "10 powi adjusted x \<le> \<bar>x\<bar>" by simp
  have "\<bar>x\<bar> = of_int \<bar>c\<bar> * 10 powi k" by (simp add: x abs_mult)
  also have "\<dots> < 10 ^ 28 * 10 powi k"
  proof -
    from c have "(of_int \<bar>c\<bar> :: rat) < of_int (10 ^ 28)" by (simp only: of_int_less_iff)
    then have "(of_int \<bar>c\<bar> :: rat) < 10 ^ 28" by simp
    then show ?thesis by (simp add: mult_strict_right_mono)
  qed
  also have "\<dots> = 10 powi (28 + k)"
    using power_int_add[of "10::rat" 28 k] by simp
  finally have "\<bar>x\<bar> < 10 powi (28 + k)" .
  with lo have "(10::rat) powi adjusted x < 10 powi (28 + k)" by linarith
  then have "adjusted x < 28 + k" by (rule powi_less_imp)
  with k have ek: "e \<le> k" by (simp add: e_def)
  then have "0 \<le> k - e" by simp
  then obtain j where "k - e = int j" by (rule nonneg_int_cases)
  then have kj: "k = e + int j" by simp
  have pk: "(10::rat) powi k = 10 powi e * 10 ^ j"
    using power_int_add[of "10::rat" e "int j"] by (simp add: kj)
  have ne: "(10::rat) powi e \<noteq> 0" by simp
  have xe: "x = of_int (c * 10 ^ j) * 10 powi e"
    by (simp add: x pk)
  then have "x / 10 powi e = of_int (c * 10 ^ j) * 10 powi e / 10 powi e" by simp
  also have "\<dots> = of_int (c * 10 ^ j)" using ne by (rule nonzero_mult_div_cancel_right)
  finally have q: "x / 10 powi e = of_int (c * 10 ^ j)" .
  have r: "of_int (round_half_even (x / 10 powi e)) * 10 powi e = x"
    by (simp only: q round_half_even_of_int xe[symmetric])
  from big have nb: "\<not> Emax < adjusted x" by simp
  let ?r = "(of_int (round_half_even (x / 10 powi e)) * 10 powi e :: rat)"
  have "decimal_fix x = (if ?r \<noteq> 0 \<and> Emax < adjusted ?r then Inl Overflow else Inr ?r)"
    using False by (simp add: decimal_fix_def Let_def e_def)
  also have "\<dots> = Inr x" using nb by (simp only: r) simp
  finally show ?thesis .
qed

lemma adjusted_unique:
  assumes "x \<noteq> 0" and "10 powi a \<le> \<bar>x\<bar>" and "\<bar>x\<bar> < 10 powi (a + 1)"
  shows "adjusted x = a"
proof -
  from adjusted_bounds[OF assms(1)]
  have lo: "10 powi adjusted x \<le> \<bar>x\<bar>" and hi: "\<bar>x\<bar> < 10 powi (adjusted x + 1)" by auto
  from lo assms(3) have "(10::rat) powi adjusted x < 10 powi (a + 1)" by linarith
  then have 1: "adjusted x < a + 1" by (rule powi_less_imp)
  from assms(2) hi have "(10::rat) powi a < 10 powi (adjusted x + 1)" by linarith
  then have 2: "a < adjusted x + 1" by (rule powi_less_imp)
  from 1 2 show ?thesis by simp
qed

lemma round_half_even_near:
  assumes "\<bar>q - of_int z\<bar> < 1 / 2"
  shows "round_half_even q = z"
proof -
  have f1: "of_int \<lfloor>q\<rfloor> \<le> q" and f2: "q < of_int \<lfloor>q\<rfloor> + 1" by linarith+
  from assms have z1: "q - 1 / 2 < of_int z" and z2: "of_int z < q + 1 / 2" by linarith+
  have less: "a < b" if "(of_int a :: rat) < of_int b" for a b :: int
    using that by (simp only: of_int_less_iff)
  consider "q - of_int \<lfloor>q\<rfloor> < 1 / 2" | "1 / 2 < q - of_int \<lfloor>q\<rfloor>" | "q - of_int \<lfloor>q\<rfloor> = 1 / 2"
    by linarith
  then show ?thesis
  proof cases
    case 1
    have "(of_int z :: rat) < of_int \<lfloor>q\<rfloor> + 1" using z2 1 by linarith
    then have "(of_int z :: rat) < of_int (\<lfloor>q\<rfloor> + 1)" by simp
    then have a: "z < \<lfloor>q\<rfloor> + 1" by (rule less)
    have "(of_int \<lfloor>q\<rfloor> :: rat) - 1 < of_int z" using z1 f1 by linarith
    then have "(of_int (\<lfloor>q\<rfloor> - 1) :: rat) < of_int z" by simp
    then have b: "\<lfloor>q\<rfloor> - 1 < z" by (rule less)
    from a b have "z = \<lfloor>q\<rfloor>" by simp
    with 1 show ?thesis by (simp add: round_half_even_def Let_def)
  next
    case 2
    have "(of_int \<lfloor>q\<rfloor> :: rat) < of_int z" using z1 2 by linarith
    then have a: "\<lfloor>q\<rfloor> < z" by (rule less)
    have "(of_int z :: rat) < of_int \<lfloor>q\<rfloor> + 2" using z2 f2 by linarith
    then have "(of_int z :: rat) < of_int (\<lfloor>q\<rfloor> + 2)" by simp
    then have b: "z < \<lfloor>q\<rfloor> + 2" by (rule less)
    from a b have "z = \<lfloor>q\<rfloor> + 1" by simp
    with 2 show ?thesis by (simp add: round_half_even_def Let_def)
  next
    case 3
    have "(of_int \<lfloor>q\<rfloor> :: rat) < of_int z" using z1 3 by linarith
    then have a: "\<lfloor>q\<rfloor> < z" by (rule less)
    have "(of_int z :: rat) < of_int \<lfloor>q\<rfloor> + 1" using z2 3 by linarith
    then have "(of_int z :: rat) < of_int (\<lfloor>q\<rfloor> + 1)" by simp
    then have b: "z < \<lfloor>q\<rfloor> + 1" by (rule less)
    from a b show ?thesis by simp
  qed
qed

lemma decimal_fix_rounds:
  assumes "x \<noteq> 0" and "10 powi a \<le> \<bar>x\<bar>" and "\<bar>x\<bar> < 10 powi (a + 1)"
    and "Etiny \<le> a - 27"
    and "\<bar>x / 10 powi (a - 27) - of_int z\<bar> < 1 / 2"
    and "r = of_int z * 10 powi (a - 27)" and "r \<noteq> 0"
    and "10 powi a' \<le> \<bar>r\<bar>" and "\<bar>r\<bar> < 10 powi (a' + 1)" and "a' \<le> Emax"
  shows "decimal_fix x = Inr r"
proof -
  have adj: "adjusted x = a" using assms(1-3) by (rule adjusted_unique)
  have e: "max (adjusted x - 27) Etiny = a - 27" using assms(4) by (simp add: adj)
  have rz: "round_half_even (x / 10 powi (a - 27)) = z" using assms(5) by (rule round_half_even_near)
  have adjr: "adjusted r = a'" using assms(7-9) by (rule adjusted_unique)
  have "decimal_fix x = (if r \<noteq> 0 \<and> Emax < adjusted r then Inl Overflow else Inr r)"
    using assms(1) by (simp add: decimal_fix_def Let_def e rz assms(6))
  also have "\<dots> = Inr r" using assms(10) by (simp add: adjr)
  finally show ?thesis .
qed

lemma big_twice:
  "decimal_add (6665585079656378428130865001 / 1000000) (6665585079656378428130865001 / 1000000)
     = Inr (1333117015931275685626173 / 100)"
  unfolding decimal_add_def
  by (rule decimal_fix_rounds[where a = 22 and z = 1333117015931275685626173000 and a' = 22])
     (simp_all add: Etiny_def Emax_def)

lemma big_once:
  "decimal_add 0 (6665585079656378428130865001 / 1000000) = Inr (6665585079656378428130865001 / 1000000)"
  unfolding decimal_add_def
  by (rule decimal_fix_rounds[where a = 21 and z = 6665585079656378428130865001 and a' = 21])
     (simp_all add: Etiny_def Emax_def)

lemma demo_once:
  "decimal_add 0 (199783809627361297606173 / 2000) = Inr (199783809627361297606173 / 2000)"
  unfolding decimal_add_def
  by (rule decimal_fix_rounds[where a = 19 and z = 9989190481368064880308650000 and a' = 19])
     (simp_all add: Etiny_def Emax_def)

subsection \<open>The statistics\<close>

lemma execute_arbitrage_success:
  assumes "prepare_flashbots_bundle e x opp = Inr tx" and "sign_transaction x tx = Inr raw_tx"
    and "fst (submit_to_flashbots x t raw_tx)"
  shows "fst (execute_arbitrage e x b t opp) = record_success b opp"
  using assms by (cases "submit_to_flashbots x t raw_tx") (simp add: execute_arbitrage_def)

lemma execute_arbitrage_rejected:
  assumes "prepare_flashbots_bundle e x opp = Inr tx" and "sign_transaction x tx = Inr raw_tx"
    and "\<not> fst (submit_to_flashbots x t raw_tx)"
  shows "fst (execute_arbitrage e x b t opp) = record_failure b"
  using assms by (cases "submit_to_flashbots x t raw_tx") (simp add: execute_arbitrage_def)

lemma execute_arbitrage_raised:
  assumes "prepare_flashbots_bundle e x opp = Inl err \<or>
           (prepare_flashbots_bundle e x opp = Inr tx \<and> sign_transaction x tx = Inl err)"
  shows "execute_arbitrage e x b t opp = (record_failure b, [])"
  using assms by (auto simp: execute_arbitrage_def)

lemma record_success_added:
  assumes "decimal_add (total_profit (stats b)) (expected_profit opp) = Inr new_total"
  shows "stats (record_success b opp) =
           (stats b)\<lparr>trades_executed := trades_executed (stats b) + 1, total_profit := new_total\<rparr>"
  using assms by (simp add: record_success_def)

lemma record_success_overflow:
  assumes "decimal_add (total_profit (stats b)) (expected_profit opp) = Inl err"
  shows "stats (record_success b opp) =
           (stats b)\<lparr>trades_executed := trades_executed (stats b) + 1,
                     failed_trades := failed_trades (stats b) + 1\<rparr>"
  using assms by (simp add: record_success_def record_failure_def)

text \<open>
  Claim C10 (as the code does it). When the bundle is prepared and signed and the relay
  accepts it, \<open>trades_executed\<close> grows by one, \<open>failed_trades\<close> is unchanged and
  \<open>total_profit\<close> becomes the Decimal sum of its old value and the opportunity's
  expected profit: the exact sum rounded to 28 significant digits, which is the exact
  sum whenever that sum is a coefficient of fewer than 29 digits times a power of ten
  within the exponent range. If that addition raises Overflow, \<open>trades_executed\<close> has
  grown by one, \<open>total_profit\<close> is unchanged and \<open>failed_trades\<close> grows by one. When the
  relay does not accept the bundle, or when preparing or signing raises,
  \<open>failed_trades\<close> grows by one and \<open>trades_executed\<close> and \<open>total_profit\<close> are unchanged.
\<close>

theorem execute_arbitrage_stats:
  "(prepare_flashbots_bundle e x opp = Inr tx \<and> sign_transaction x tx = Inr raw_tx \<and>
    fst (submit_to_flashbots x t raw_tx) \<and>
    decimal_add (total_profit (stats b)) (expected_profit opp) = Inr new_total \<longrightarrow>
      trades_executed (stats (fst (execute_arbitrage e x b t opp))) = trades_executed (stats b) + 1 \<and>
      total_profit (stats (fst (execute_arbitrage e x b t opp))) = new_total \<and>
      failed_trades (stats (fst (execute_arbitrage e x b t opp))) = failed_trades (stats b)) \<and>
   (prepare_flashbots_bundle e x opp = Inr tx \<and> sign_transaction x tx = Inr raw_tx \<and>
    fst (submit_to_flashbots x t raw_tx) \<and>
    total_profit (stats b) + expected_profit opp = of_int c * 10 powi k \<and> \<bar>c\<bar> < 10 ^ 28 \<and>
    Etiny \<le> k \<and> adjusted (total_profit (stats b) + expected_profit opp) \<le> Emax \<longrightarrow>
      trades_executed (stats (fst (execute_arbitrage e x b t opp))) = trades_executed (stats b) + 1 \<and>
      total_profit (stats (fst (execute_arbitrage e x b t opp))) =
        total_profit (stats b) + expected_profit opp \<and>
      failed_trades (stats (fst (execute_arbitrage e x b t opp))) = failed_trades (stats b)) \<and>
   (prepare_flashbots_bundle e x opp = Inr tx \<and> sign_transaction x tx = Inr raw_tx \<and>
    fst (submit_to_flashbots x t raw_tx) \<and>
    decimal_add (total_profit (stats b)) (expected_profit opp) = Inl err \<longrightarrow>
      trades_executed (stats (fst (execute_arbitrage e x b t opp))) = trades_executed (stats b) + 1 \<and>
      total_profit (stats (fst (execute_arbitrage e x b t opp))) = total_profit (stats b) \<and>
      failed_trades (stats (fst (execute_arbitrage e x b t opp))) = failed_trades (stats b) + 1) \<and>
   (prepare_flashbots_bundle e x opp = Inr tx \<and> sign_transaction x tx = Inr raw_tx \<and>
    \<not> fst (submit_to_flashbots x t raw_tx) \<longrightarrow>
      failed_trades (stats (fst (execute_arbitrage e x b t opp))) = failed_trades (stats b) + 1 \<and>
      trades_executed (stats (fst (execute_arbitrage e x b t opp))) = trades_executed (stats b) \<and>
      total_profit (stats (fst (execute_arbitrage e x b t opp))) = total_profit (stats b)) \<and>
   (prepare_flashbots_bundle e x opp = Inl err \<or>
    (prepare_flashbots_bundle e x opp = Inr tx \<and> sign_transaction x tx = Inl err) \<longrightarrow>
      failed_trades (stats (fst (execute_arbitrage e x b t opp))) = failed_trades (stats b) + 1 \<and>
      trades_executed (stats (fst (execute_arbitrage e x b t opp))) = trades_executed (stats b) \<and>
      total_profit (stats (fst (execute_arbitrage e x b t opp))) = total_profit (stats b))"
proof -
  let ?b' = "fst (execute_arbitrage e x b t opp)"
  let ?sum = "total_profit (stats b) + expected_profit opp"
  have added: "trades_executed (stats ?b') = trades_executed (stats b) + 1 \<and>
      total_profit (stats ?b') = new_total \<and> failed_trades (stats ?b') = failed_trades (stats b)"
    if "prepare_flashbots_bundle e x opp = Inr tx" "sign_transaction x tx = Inr raw_tx"
      "fst (submit_to_flashbots x t raw_tx)"
      "decimal_add (total_profit (stats b)) (expected_profit opp) = Inr new_total" for new_total
    using execute_arbitrage_success[OF that(1-3), of b] record_success_added[OF that(4)]
    by simp
  have exact: "trades_executed (stats ?b') = trades_executed (stats b) + 1 \<and>
      total_profit (stats ?b') = ?sum \<and> failed_trades (stats ?b') = failed_trades (stats b)"
    if "prepare_flashbots_bundle e x opp = Inr tx" "sign_transaction x tx = Inr raw_tx"
      "fst (submit_to_flashbots x t raw_tx)"
      "?sum = of_int c * 10 powi k" "\<bar>c\<bar> < 10 ^ 28" "Etiny \<le> k" "adjusted ?sum \<le> Emax"
  proof -
    from decimal_fix_exact[OF that(4-7)]
    have "decimal_add (total_profit (stats b)) (expected_profit opp) = Inr ?sum"
      by (simp add: decimal_add_def)
    from added[OF that(1-3) this] show ?thesis .
  qed
  have overflow: "trades_executed (stats ?b') = trades_executed (stats b) + 1 \<and>
      total_profit (stats ?b') = total_profit (stats b) \<and>
      failed_trades (stats ?b') = failed_trades (stats b) + 1"
    if "prepare_flashbots_bundle e x opp = Inr tx" "sign_transaction x tx = Inr raw_tx"
      "fst (submit_to_flashbots x t raw_tx)"
      "decimal_add (total_profit (stats b)) (expected_profit opp) = Inl err"
    using execute_arbitrage_success[OF that(1-3), of b] record_success_overflow[OF that(4)]
    by simp
  have ko: "failed_trades (stats (record_failure b)) = failed_trades (stats b) + 1 \<and>
    trades_executed (stats (record_failure b)) = trades_executed (stats b) \<and>
    total_profit (stats (record_failure b)) = total_profit (stats b)"
    by (simp add: record_failure_def)
  have rejected: "failed_trades (stats ?b') = failed_trades (stats b) + 1 \<and>
      trades_executed (stats ?b') = trades_executed (stats b) \<and>
      total_profit (stats ?b') = total_profit (stats b)"
    if "prepare_flashbots_bundle e x opp = Inr tx" "sign_transaction x tx = Inr raw_tx"
      "\<not> fst (submit_to_flashbots x t raw_tx)"
    using execute_arbitrage_rejected[OF that, of b] ko by simp
  have raised: "failed_trades (stats ?b') = failed_trades (stats b) + 1 \<and>
      trades_executed (stats ?b') = trades_executed (stats b) \<and>
      total_profit (stats ?b') = total_profit (stats b)"
    if "prepare_flashbots_bundle e x opp = Inl err \<or>
        (prepare_flashbots_bundle e x opp = Inr tx \<and> sign_transaction x tx = Inl err)"
    using execute_arbitrage_raised[OF that, of b t] ko by simp
  from added exact overflow rejected raised show ?thesis by blast
qed

lemma prepare_demo:
  "prepare_flashbots_bundle demo_env demo_relay demo_opp =
     Inr \<lparr>tx_from = ''0xACC'', tx_to = ''0xC0DE'', nonce = 7, gas = 360000,
          maxFeePerGas = 50000000000, maxPriorityFeePerGas = 50000000000, data = ''0xda7a''\<rparr>"
  by (simp add: prepare_flashbots_bundle_def demo_env_def demo_relay_def demo_opp_def)

lemma prepare_big:
  "prepare_flashbots_bundle demo_env demo_relay big_opp =
     Inr \<lparr>tx_from = ''0xACC'', tx_to = ''0xC0DE'', nonce = 7, gas = 360000,
          maxFeePerGas = 50000000000, maxPriorityFeePerGas = 50000000000, data = ''0xda7a''\<rparr>"
  by (simp add: prepare_flashbots_bundle_def demo_env_def demo_relay_def demo_opp_def big_opp_def)

lemma statistics_eqI:
  fixes s :: statistics
  assumes "opportunities_found s = a" "trades_executed s = c" "total_profit s = d"
    "failed_trades s = f"
  shows "s = \<lparr>opportunities_found = a, trades_executed = c, total_profit = d, failed_trades = f\<rparr>"
  using assms by (cases s) simp

theorem execute_arbitrage_stats_witness:
  "stats (fst (execute_arbitrage demo_env demo_relay bot_init 1700000000 demo_opp)) =
     \<lparr>opportunities_found = 0, trades_executed = 1,
      total_profit = 199783809627361297606173 / 2000, failed_trades = 0\<rparr> \<and>
   stats (fst (execute_arbitrage demo_env rejecting_relay bot_init 1700000000 demo_opp)) =
     \<lparr>opportunities_found = 0, trades_executed = 0, total_profit = 0, failed_trades = 1\<rparr> \<and>
   stats (fst (execute_arbitrage demo_env unsigned_relay bot_init 1700000000 demo_opp)) =
     \<lparr>opportunities_found = 0, trades_executed = 0, total_profit = 0, failed_trades = 1\<rparr>"
proof -
  let ?tx = "\<lparr>tx_from = ''0xACC'', tx_to = ''0xC0DE'', nonce = 7, gas = 360000,
          maxFeePerGas = 50000000000, maxPriorityFeePerGas = 50000000000, data = ''0xda7a''\<rparr>"
  have p2: "prepare_flashbots_bundle demo_env rejecting_relay demo_opp = Inr ?tx"
    and p3: "prepare_flashbots_bundle demo_env unsigned_relay demo_opp = Inr ?tx"
    by (simp_all add: prepare_flashbots_bundle_def demo_env_def demo_relay_def demo_opp_def
          rejecting_relay_def unsigned_relay_def)
  have s1: "sign_transaction demo_relay ?tx = Inr ''0xf86b''"
    and s2: "sign_transaction rejecting_relay ?tx = Inr ''0xf86b''"
    and s3: "sign_transaction unsigned_relay ?tx = Inl TypeError"
    by (simp_all add: demo_relay_def rejecting_relay_def unsigned_relay_def)
  have f1: "fst (submit_to_flashbots demo_relay 1700000000 ''0xf86b'')"
    by (simp add: demo_posted)
  have f2: "\<not> fst (submit_to_flashbots rejecting_relay 1700000000 ''0xf86b'')"
    by (simp add: submit_to_flashbots_def rejecting_relay_def demo_relay_def relay_accepted_def Let_def)
  have sum: "total_profit (stats bot_init) + expected_profit demo_opp =
               of_int 998919048136806488030865 * 10 powi (- 4)"
    by (simp add: bot_init_def demo_opp_def)
  have adj: "adjusted (total_profit (stats bot_init) + expected_profit demo_opp) \<le> Emax"
  proof -
    have "adjusted (199783809627361297606173 / 2000) = 19"
      by (rule adjusted_unique) simp_all
    then show ?thesis by (simp add: bot_init_def demo_opp_def Emax_def)
  qed
  have da: "decimal_add (total_profit (stats bot_init)) (expected_profit demo_opp) =
              Inr (199783809627361297606173 / 2000)"
    using demo_once by (simp add: bot_init_def demo_opp_def)
  let ?b1 = "fst (execute_arbitrage demo_env demo_relay bot_init 1700000000 demo_opp)"
  let ?b2 = "fst (execute_arbitrage demo_env rejecting_relay bot_init 1700000000 demo_opp)"
  let ?b3 = "fst (execute_arbitrage demo_env unsigned_relay bot_init 1700000000 demo_opp)"
  from execute_arbitrage_stats[of demo_env demo_relay demo_opp ?tx "''0xf86b''" 1700000000 bot_init
      _ 998919048136806488030865 "- 4"]
    prepare_demo s1 f1 sum adj
  have one: "trades_executed (stats ?b1) = 1" "total_profit (stats ?b1) = 199783809627361297606173 / 2000"
    "failed_trades (stats ?b1) = 0"
    by (simp_all add: bot_init_def demo_opp_def Etiny_def)
  from execute_arbitrage_stats[of demo_env rejecting_relay demo_opp ?tx "''0xf86b''" 1700000000 bot_init]
    p2 s2 f2
  have two: "trades_executed (stats ?b2) = 0" "total_profit (stats ?b2) = 0" "failed_trades (stats ?b2) = 1"
    by (simp_all add: bot_init_def)
  from execute_arbitrage_stats[of demo_env unsigned_relay demo_opp ?tx "''0xf86b''" 1700000000 bot_init
      _ _ _ TypeError]
    p3 s3
  have three: "trades_executed (stats ?b3) = 0" "total_profit (stats ?b3) = 0" "failed_trades (stats ?b3) = 1"
    by (simp_all add: bot_init_def)
  have found: "opportunities_found (stats ?b1) = 0" "opportunities_found (stats ?b2) = 0"
    "opportunities_found (stats ?b3) = 0"
    using execute_arbitrage_success[OF prepare_demo s1 f1, of bot_init] record_success_added[OF da]
      execute_arbitrage_rejected[OF p2 s2 f2, of bot_init]
      execute_arbitrage_raised[of demo_env unsigned_relay demo_opp TypeError ?tx bot_init 1700000000] p3 s3
    by (simp_all add: record_failure_def bot_init_def)
  from one two three found show ?thesis
    by (intro conjI statistics_eqI)
qed

text \<open>
  The claim as stated fails on the second execution of \<open>big_opp\<close>: its expected profit
  6665585079656378428130.865001 has 28 significant digits; the first execution stores
  it as the total; the second adds it again, the exact sum has 29 digits and the
  total becomes 13331170159312756856261.73, so the increase is not the expected
  profit.
\<close>

theorem total_profit_rounding_counterexample:
  "fst (execute_arbitrage demo_env demo_relay bot_init 1700000000 big_opp) = bot_once \<and>
   total_profit (stats bot_once) = 6665585079656378428130865001 / 1000000 \<and>
   expected_profit big_opp = 6665585079656378428130865001 / 1000000 \<and>
   total_profit (stats (fst (execute_arbitrage demo_env demo_relay bot_once 1700000000 big_opp))) =
     1333117015931275685626173 / 100 \<and>
   total_profit (stats (fst (execute_arbitrage demo_env demo_relay bot_once 1700000000 big_opp)))
     \<noteq> total_profit (stats bot_once) + expected_profit big_opp"
proof -
  let ?tx = "\<lparr>tx_from = ''0xACC'', tx_to = ''0xC0DE'', nonce = 7, gas = 360000,
          maxFeePerGas = 50000000000, maxPriorityFeePerGas = 50000000000, data = ''0xda7a''\<rparr>"
  have s1: "sign_transaction demo_relay ?tx = Inr ''0xf86b''"
    by (simp add: demo_relay_def)
  have f1: "fst (submit_to_flashbots demo_relay 1700000000 ''0xf86b'')"
    by (simp add: demo_posted)
  have ep: "expected_profit big_opp = 6665585079656378428130865001 / 1000000"
    by (simp add: big_opp_def)
  have t0: "total_profit (stats bot_init) = 0" by (simp add: bot_init_def)
  have t1: "total_profit (stats bot_once) = 6665585079656378428130865001 / 1000000"
    by (simp add: bot_once_def)
  have d0: "decimal_add (total_profit (stats bot_init)) (expected_profit big_opp) =
              Inr (6665585079656378428130865001 / 1000000)"
    by (simp only: t0 ep big_once)
  have d1: "decimal_add (total_profit (stats bot_once)) (expected_profit big_opp) =
              Inr (1333117015931275685626173 / 100)"
    by (simp only: t1 ep big_twice)
  have first: "fst (execute_arbitrage demo_env demo_relay bot_init 1700000000 big_opp) = bot_once"
    using execute_arbitrage_success[OF prepare_big s1 f1, of bot_init] d0
    by (simp add: record_success_def bot_once_def bot_init_def)
  have second: "total_profit (stats (fst (execute_arbitrage demo_env demo_relay bot_once 1700000000 big_opp))) =
     1333117015931275685626173 / 100"
    using execute_arbitrage_success[OF prepare_big s1 f1, of bot_once] record_success_added[OF d1]
    by simp
  have ne: "(1333117015931275685626173 / 100 :: rat) \<noteq>
      6665585079656378428130865001 / 1000000 + 6665585079656378428130865001 / 1000000"
    by simp
  from first t1 ep second ne show ?thesis by (simp only:) simp
qed

end
